theory Spec2Isabelle
  imports Main "HOL-Library.Word" "HOL-Library.Multiset"
begin

unbundle bit_operations_syntax

section \<open>Platform types used by \<open>osquery/core/windows/wmi.cpp\<close>\<close>

text \<open>
  The file is Windows-only code (LLP64): \<open>long\<close> and \<open>unsigned long\<close> are 32 bits wide,
  \<open>long long\<close> is 64 bits wide, \<open>wchar_t\<close> is a 16-bit code unit and the target is
  little-endian. An \<open>HRESULT\<close> is a signed 32-bit value; \<open>SUCCEEDED\<close> and \<open>FAILED\<close> test
  its sign, while several call sites compare with \<open>S_OK\<close> instead.
\<close>

type_synonym HRESULT = "32 word"
type_synonym VARTYPE = "16 word"
type_synonym wstring = "16 word list"

text \<open>
  \<open>c_str()\<close> hands a \<open>std::wstring\<close> to the platform as a pointer to a NUL-terminated
  buffer: a callee that takes the pointer reads the code units before the first NUL.
\<close>

definition c_str :: "wstring \<Rightarrow> wstring" where
  "c_str s = takeWhile (\<lambda>c. c \<noteq> 0) s"

definition S_OK :: HRESULT where "S_OK = 0"
definition E_FAIL :: HRESULT where "E_FAIL = 0x80004005"
definition WBEM_S_NO_ERROR :: HRESULT where "WBEM_S_NO_ERROR = 0"
definition WBEM_S_FALSE :: HRESULT where "WBEM_S_FALSE = 1"
definition WBEM_E_FAILED :: HRESULT where "WBEM_E_FAILED = 0x80041001"
definition RPC_E_TOO_LATE :: HRESULT where "RPC_E_TOO_LATE = 0x80010119"

definition SUCCEEDED :: "HRESULT \<Rightarrow> bool" where
  "SUCCEEDED hr = (0 \<le> sint hr)"

definition FAILED :: "HRESULT \<Rightarrow> bool" where
  "FAILED hr = (sint hr < 0)"

text \<open>The type tags of \<open>VARENUM\<close> (platform header \<open>wtypes.h\<close>) that the file names.\<close>

definition VT_I4 :: VARTYPE where "VT_I4 = 3"
definition VT_BSTR :: VARTYPE where "VT_BSTR = 8"
definition VT_BOOL :: VARTYPE where "VT_BOOL = 11"
definition VT_UI1 :: VARTYPE where "VT_UI1 = 17"
definition VT_UI2 :: VARTYPE where "VT_UI2 = 18"
definition VT_UI4 :: VARTYPE where "VT_UI4 = 19"
definition VT_I8 :: VARTYPE where "VT_I8 = 20"
definition VT_UI8 :: VARTYPE where "VT_UI8 = 21"
definition VT_UINT :: VARTYPE where "VT_UINT = 23"
definition VT_ARRAY :: VARTYPE where "VT_ARRAY = 0x2000"

definition VARIANT_TRUE :: "16 word" where "VARIANT_TRUE = 0xFFFF"

subsection \<open>Allocated strings\<close>

text \<open>
  A \<open>BSTR\<close> is a pointer to an allocated wide string. The model keeps, for a non-null
  pointer, the address of the allocation together with the characters stored there
  (allocated strings are never modified by this file); \<open>nullptr\<close> is \<open>None\<close>.
\<close>

record bstr =
  addr :: nat
  chars :: wstring

type_synonym BSTR = "bstr option"

text \<open>
  A one-dimensional \<open>SAFEARRAY\<close> of \<open>BSTR\<close>: the lower bound of its only dimension and the
  data buffer that \<open>SafeArrayAccessData\<close> exposes. Buffer position \<open>i\<close> holds the element
  whose array index is \<open>lLbound + i\<close>.
\<close>

record SAFEARRAY =
  lLbound :: "32 word"
  pvData :: "BSTR list"

definition SafeArrayGetLBound :: "SAFEARRAY \<Rightarrow> 32 word" where
  "SafeArrayGetLBound a = lLbound a"

definition SafeArrayGetUBound :: "SAFEARRAY \<Rightarrow> 32 word" where
  "SafeArrayGetUBound a = lLbound a + of_nat (length (pvData a)) - 1"

text \<open>The element of the array at array index \<open>idx\<close> (an index between the two bounds).\<close>

definition SafeArrayElement :: "SAFEARRAY \<Rightarrow> int \<Rightarrow> BSTR" where
  "SafeArrayElement a idx = pvData a ! nat (idx - sint (lLbound a))"

subsection \<open>The dynamic value\<close>

text \<open>
  \<open>VARIANT\<close> is a tag \<open>vt\<close> and a union. The scalar members of the union all start at the
  same byte; on the little-endian target each of them reads or writes the low-order bytes of
  the same storage, modelled as the 64-bit word \<open>bits\<close>. The pointer members \<open>bstrVal\<close> and
  \<open>parray\<close> are kept apart from the scalar storage: the file reads a pointer member only
  under a pointer tag and a scalar member only under a scalar tag.
\<close>

record VARIANT =
  vt :: VARTYPE
  bits :: "64 word"
  bstrVal :: BSTR
  parray :: SAFEARRAY

definition llVal :: "VARIANT \<Rightarrow> 64 word" where "llVal v = bits v"
definition ullVal :: "VARIANT \<Rightarrow> 64 word" where "ullVal v = bits v"
definition lVal :: "VARIANT \<Rightarrow> 32 word" where "lVal v = ucast (bits v)"
definition ulVal :: "VARIANT \<Rightarrow> 32 word" where "ulVal v = ucast (bits v)"
definition uiVal :: "VARIANT \<Rightarrow> 16 word" where "uiVal v = ucast (bits v)"
definition boolVal :: "VARIANT \<Rightarrow> 16 word" where "boolVal v = ucast (bits v)"
definition bVal :: "VARIANT \<Rightarrow> 8 word" where "bVal v = ucast (bits v)"

text \<open>Assignment to the member \<open>ulVal\<close>: the low four bytes change, the others keep what they held.\<close>

definition set_ulVal :: "32 word \<Rightarrow> VARIANT \<Rightarrow> VARIANT" where
  "set_ulVal x v = v\<lparr>bits := (bits v AND NOT (mask 32)) OR ucast x\<rparr>"

subsection \<open>Status\<close>

text \<open>
  Modelled from the spec: the class \<open>Status\<close> (\<open>osquery/utils/status\<close>) is not among the
  sources. The spec describes it as a success/failure result type with a human-readable
  message; success is code 0, \<open>Status::failure(m)\<close> carries code 1 and the message \<open>m\<close>,
  and \<open>Status(c)\<close> carries the code \<open>c\<close> with the message \<open>OK\<close>.
\<close>

datatype Status = Status (getCode: int) (getMessage: string)

definition ok :: "Status \<Rightarrow> bool" where
  "ok s = (getCode s = 0)"

definition Status_code :: "int \<Rightarrow> Status" where
  "Status_code c = Status c ''OK''"

definition Status_success :: Status where
  "Status_success = Status_code 0"

definition Status_failure :: "string \<Rightarrow> Status" where
  "Status_failure m = Status 1 m"

subsection \<open>External collaborators\<close>

text \<open>
  A remote object handle as a result item uses it: \<open>Get\<close> answers a property name with an
  \<open>HRESULT\<close> and the \<open>VARIANT\<close> it filled in (meaningful when the call returned \<open>S_OK\<close>).
\<close>

record IWbemClassObject =
  Get :: "wstring \<Rightarrow> HRESULT \<times> VARIANT"

text \<open>
  The date-time helper object \<open>ISWbemDateTime\<close>: \<open>put_Value\<close> stores a string,
  \<open>GetFileTime\<close> renders the stored string, in local time or in UTC.
\<close>

record ISWbemDateTime =
  put_Value :: "BSTR \<Rightarrow> HRESULT"
  GetFileTime :: "BSTR \<Rightarrow> bool \<Rightarrow> HRESULT \<times> BSTR"

text \<open>
  String transcoding is outside the file: \<open>stringToWstring\<close> and \<open>bstrToString\<close>
  (\<open>osquery/utils/conversions/windows/strings.h\<close>), the C runtime's \<open>_wtoi64\<close> and the
  creation of the date-time helper by \<open>CoCreateInstance\<close> are parameters of the model.
\<close>

record externals =
  stringToWstring :: "string \<Rightarrow> wstring"
  bstrToString :: "BSTR \<Rightarrow> string"
  wtoi64 :: "BSTR \<Rightarrow> 64 word"
  CoCreateInstance_SWbemDateTime :: "HRESULT \<times> ISWbemDateTime"

record FILETIME =
  dwLowDateTime :: "32 word"
  dwHighDateTime :: "32 word"

section \<open>Result items: the typed getters\<close>

text \<open>
  A \<open>WmiResultItem\<close> wraps one object handle (the member \<open>result_\<close>, written
  \<open>result_m\<close> here). Each getter takes the caller's by-reference output \<open>ret\<close> and returns the status together with the value \<open>ret\<close> holds
  afterwards. \<open>VariantClear\<close> releases the transient copy that \<open>Get\<close> produced; it has no
  effect on the status or on \<open>ret\<close>.
\<close>

record WmiResultItem =
  result_m :: IWbemClassObject

definition GetBool :: "externals \<Rightarrow> WmiResultItem \<Rightarrow> string \<Rightarrow> bool \<Rightarrow> Status \<times> bool" where
  "GetBool X item name ret =
     (let property_name = stringToWstring X name;
          (hr, value) = Get (result_m item) (c_str property_name)
      in if hr \<noteq> S_OK then (Status_failure ''Error retrieving data from WMI query.'', ret)
         else if vt value \<noteq> VT_BOOL then (Status_failure ''Invalid data type returned.'', ret)
         else (Status_success, if boolVal value = VARIANT_TRUE then True else False))"

definition GetUChar :: "externals \<Rightarrow> WmiResultItem \<Rightarrow> string \<Rightarrow> 8 word \<Rightarrow> Status \<times> 8 word" where
  "GetUChar X item name ret =
     (let property_name = stringToWstring X name;
          (hr, value) = Get (result_m item) (c_str property_name)
      in if hr \<noteq> S_OK then (Status_failure ''Error retrieving data from WMI query.'', ret)
         else if vt value \<noteq> VT_UI1 then (Status_failure ''Invalid data type returned.'', ret)
         else (Status_success, bVal value))"

definition GetUnsignedShort :: "externals \<Rightarrow> WmiResultItem \<Rightarrow> string \<Rightarrow> 16 word \<Rightarrow> Status \<times> 16 word" where
  "GetUnsignedShort X item name ret =
     (let property_name = stringToWstring X name;
          (hr, value) = Get (result_m item) (c_str property_name)
      in if hr \<noteq> S_OK then (Status_failure ''Error retrieving data from WMI query.'', ret)
         else if vt value \<noteq> VT_UI2 then (Status_failure ''Invalid data type returned.'', ret)
         else (Status_success, uiVal value))"

text \<open>\<open>ret = value.uiVal\<close>: the 16-bit member, widened to \<open>unsigned int\<close>.\<close>

definition GetUnsignedInt32 :: "externals \<Rightarrow> WmiResultItem \<Rightarrow> string \<Rightarrow> 32 word \<Rightarrow> Status \<times> 32 word" where
  "GetUnsignedInt32 X item name ret =
     (let property_name = stringToWstring X name;
          (hr, value) = Get (result_m item) (c_str property_name)
      in if hr \<noteq> S_OK then (Status_failure ''Error retrieving data from WMI query.'', ret)
         else if vt value \<noteq> VT_UINT then (Status_failure ''Invalid data type returned.'', ret)
         else (Status_success, ucast (uiVal value)))"

definition GetLong :: "externals \<Rightarrow> WmiResultItem \<Rightarrow> string \<Rightarrow> 32 word \<Rightarrow> Status \<times> 32 word" where
  "GetLong X item name ret =
     (let property_name = stringToWstring X name;
          (hr, value) = Get (result_m item) (c_str property_name)
      in if hr \<noteq> S_OK then (Status_failure ''Error retrieving data from WMI query.'', ret)
         else if vt value \<noteq> VT_I4 then (Status_failure ''Invalid data type returned.'', ret)
         else (Status_success, lVal value))"

text \<open>\<open>ret = value.lVal\<close>: the signed 32-bit member converted to \<open>unsigned long\<close>.\<close>

definition GetUnsignedLong :: "externals \<Rightarrow> WmiResultItem \<Rightarrow> string \<Rightarrow> 32 word \<Rightarrow> Status \<times> 32 word" where
  "GetUnsignedLong X item name ret =
     (let property_name = stringToWstring X name;
          (hr, value) = Get (result_m item) (c_str property_name)
      in if hr \<noteq> S_OK then (Status_failure ''Error retrieving data from WMI query.'', ret)
         else if vt value \<noteq> VT_UI4 then (Status_failure ''Invalid data type returned.'', ret)
         else (Status_success, scast (lVal value)))"

text \<open>
  \<open>ret = value.lVal\<close>: the signed 32-bit member converted to \<open>long long\<close>, respectively
  \<open>unsigned long long\<close>; both conversions keep the value of the 32-bit member modulo
  \<open>2 ^ 64\<close>.
\<close>

definition GetLongLong :: "externals \<Rightarrow> WmiResultItem \<Rightarrow> string \<Rightarrow> 64 word \<Rightarrow> Status \<times> 64 word" where
  "GetLongLong X item name ret =
     (let property_name = stringToWstring X name;
          (hr, value) = Get (result_m item) (c_str property_name)
      in if hr \<noteq> S_OK then (Status_failure ''Error retrieving data from WMI query.'', ret)
         else if vt value \<noteq> VT_I8 then (Status_failure ''Invalid data type returned.'', ret)
         else (Status_success, scast (lVal value)))"

definition GetUnsignedLongLong :: "externals \<Rightarrow> WmiResultItem \<Rightarrow> string \<Rightarrow> 64 word \<Rightarrow> Status \<times> 64 word" where
  "GetUnsignedLongLong X item name ret =
     (let property_name = stringToWstring X name;
          (hr, value) = Get (result_m item) (c_str property_name)
      in if hr \<noteq> S_OK then (Status_failure ''Error retrieving data from WMI query.'', ret)
         else if vt value \<noteq> VT_UI8 then (Status_failure ''Invalid data type returned.'', ret)
         else (Status_success, scast (lVal value)))"

definition GetString :: "externals \<Rightarrow> WmiResultItem \<Rightarrow> string \<Rightarrow> string \<Rightarrow> Status \<times> string" where
  "GetString X item name ret =
     (let property_name = stringToWstring X name;
          (hr, value) = Get (result_m item) (c_str property_name)
      in if hr \<noteq> S_OK then (Status_failure ''Error retrieving data from WMI query.'', '''')
         else if vt value \<noteq> VT_BSTR then (Status_failure ''Invalid data type returned.'', '''')
         else (Status_success, bstrToString X (bstrVal value)))"

definition GetDateTime :: "externals \<Rightarrow> WmiResultItem \<Rightarrow> string \<Rightarrow> bool \<Rightarrow> FILETIME \<Rightarrow> Status \<times> FILETIME" where
  "GetDateTime X item name is_local ft =
     (let property_name = stringToWstring X name;
          (hr, value) = Get (result_m item) (c_str property_name)
      in if hr \<noteq> S_OK
         then (Status_failure ''Error retrieving datetime from WMI query result.'', ft)
         else if vt value \<noteq> VT_BSTR
         then (Status_failure ''Expected VT_BSTR, got something else.'', ft)
         else
           let (hr, dt) = CoCreateInstance_SWbemDateTime X
           in if \<not> SUCCEEDED hr
              then (Status_failure ''Failed to create SWbemDateTime object.'', ft)
              else
                let hr = put_Value dt (bstrVal value)
                in if \<not> SUCCEEDED hr
                   then (Status_failure ''Failed to set SWbemDateTime value.'', ft)
                   else
                     let (hr, filetime_str) = GetFileTime dt (bstrVal value) is_local
                     in if \<not> SUCCEEDED hr
                        then (Status_failure ''GetFileTime failed.'', ft)
                        else
                          let ui = wtoi64 X filetime_str
                          in (Status_success,
                              \<lparr>dwLowDateTime = ucast ui, dwHighDateTime = ucast (drop_bit 32 ui)\<rparr>))"

text \<open>
  The copy loop of \<open>GetVectorOfStrings\<close>:
  \<^verbatim>\<open>for (long i = 0; i < count; i++) { ret.push_back(bstrToString(pData[i])); }\<close>
  The counter stays below \<open>count\<close>, so it never overflows and is an \<open>int\<close> here. The
  source's variable \<open>count\<close> is written \<open>cnt\<close>.
\<close>

function GetVectorOfStrings_loop ::
  "externals \<Rightarrow> BSTR list \<Rightarrow> int \<Rightarrow> int \<Rightarrow> string list \<Rightarrow> string list" where
  "GetVectorOfStrings_loop X pData cnt i ret =
     (if i < cnt
      then GetVectorOfStrings_loop X pData cnt (i + 1) (ret @ [bstrToString X (pData ! nat i)])
      else ret)"
  by pat_completeness auto
termination
  by (relation "measure (\<lambda>(X, pData, cnt, i, ret). nat (cnt - i))") auto

text \<open>
  \<open>count\<close> is a 32-bit \<open>long\<close> computed from the two bounds. \<open>ret.reserve(count)\<close> converts
  it to the unsigned size type: a negative \<open>count\<close> becomes a size beyond \<open>max_size()\<close> and
  \<open>reserve\<close> throws \<open>std::length_error\<close>, which leaves the getter as an exception.
\<close>

datatype cpp_exception = length_error

definition GetVectorOfStrings ::
  "externals \<Rightarrow> WmiResultItem \<Rightarrow> string \<Rightarrow> string list \<Rightarrow> cpp_exception + Status \<times> string list" where
  "GetVectorOfStrings X item name ret =
     (let property_name = stringToWstring X name;
          (hr, value) = Get (result_m item) (c_str property_name)
      in if hr \<noteq> S_OK then Inr (Status_failure ''Error retrieving data from WMI query.'', ret)
         else if vt value \<noteq> (VT_BSTR OR VT_ARRAY)
         then Inr (Status_failure ''Invalid data type returned.'', ret)
         else
           let lbound = SafeArrayGetLBound (parray value);
               ubound = SafeArrayGetUBound (parray value);
               cnt = ubound - lbound + 1;
               pData = pvData (parray value)
           in if sint cnt < 0 then Inl length_error
              else Inr (Status_success, GetVectorOfStrings_loop X pData (sint cnt) 0 ret))"

section \<open>Allocation of strings and the log of remote calls\<close>

text \<open>
  \<open>SysAllocString\<close> and \<open>SysFreeString\<close> act on the process heap. The model tracks the
  allocator the way an allocation-tracking double would: \<open>room\<close> is the number of
  allocations that still fit (with none left \<open>SysAllocString\<close> returns \<open>nullptr\<close>),
  \<open>fresh\<close> is the address the next allocation gets, and \<open>frees\<close> lists the addresses
  passed to \<open>SysFreeString\<close>, in call order. \<open>SysAllocString\<close> copies the string it is
  pointed to up to the first NUL. \<open>calls\<close> lists the calls made to the remote
  service, in call order.
\<close>

datatype call =
    Call_CoInitializeSecurity
  | Call_CoCreateInstance
  | Call_ConnectServer wstring
  | Call_ExecQuery wstring
  | Call_Next
  | Call_GetObject wstring
  | Call_GetMethod wstring
  | Call_SpawnInstance
  | Call_Put wstring VARIANT
  | Call_ExecMethod wstring wstring bool

record world =
  room :: nat
  fresh :: nat
  frees :: "nat list"
  calls :: "call list"

definition SysAllocString :: "wstring \<Rightarrow> world \<Rightarrow> BSTR \<times> world" where
  "SysAllocString s w =
     (if room w = 0 then (None, w)
      else (Some \<lparr>addr = fresh w, chars = c_str s\<rparr>,
            w\<lparr>room := room w - 1, fresh := Suc (fresh w)\<rparr>))"

definition SysFreeString :: "BSTR \<Rightarrow> world \<Rightarrow> world" where
  "SysFreeString p w =
     (case p of
        None \<Rightarrow> w
      | Some b \<Rightarrow> w\<lparr>room := Suc (room w), frees := frees w @ [addr b]\<rparr>)"

definition remote_call :: "call \<Rightarrow> world \<Rightarrow> world" where
  "remote_call c w = w\<lparr>calls := calls w @ [c]\<rparr>"

section \<open>Method arguments\<close>

text \<open>
  The member \<open>arguments\<close> of \<open>WmiMethodArgs\<close> is declared in
  \<open>osquery/core/windows/wmi.h\<close>, which is not among the sources. What the sources show
  of it: pairs of a name and a \<open>VARIANT\<close> are added by
  \<^verbatim>\<open>arguments.insert(std::pair<std::string, VARIANT>(name, var))\<close>, a call without a
  position, as the keyed containers of the standard library take it; the destructor and
  \<open>ExecMethod\<close> iterate over the pairs; the move constructor swaps two such containers; a
  newly constructed one is empty. The spec calls it a collection keyed by argument name.

  The model keeps the pairs in the order in which the container iterates over them.
  \<open>insert\<close> leaves the container as it is when the key is already present. Otherwise the
  new pair joins the others, and where it sits (and whether the others move, as in a
  rehash) is decided by the declared container type: this is the parameter \<open>arrange\<close>,
  which takes the pairs in their current order followed by the new pair and returns them in
  the new iteration order.
\<close>

type_synonym arguments_t = "(string \<times> VARIANT) list"

type_synonym container_order = "arguments_t \<Rightarrow> arguments_t"

definition arguments_insert ::
  "container_order \<Rightarrow> string \<times> VARIANT \<Rightarrow> arguments_t \<Rightarrow> arguments_t" where
  "arguments_insert arrange p xs =
     (if fst p \<in> set (map fst xs) then xs else arrange (xs @ [p]))"

record WmiMethodArgs =
  arguments :: arguments_t

definition WmiMethodArgs_new :: WmiMethodArgs where
  "WmiMethodArgs_new = \<lparr>arguments = []\<rparr>"

definition GetArguments :: "WmiMethodArgs \<Rightarrow> arguments_t" where
  "GetArguments a = arguments a"

text \<open>
  The move constructor: the new object starts with its own empty \<open>arguments\<close> and swaps it
  with the source's. The result is the new object and the source as it is left behind.
\<close>

definition WmiMethodArgs_move :: "WmiMethodArgs \<Rightarrow> WmiMethodArgs \<times> WmiMethodArgs" where
  "WmiMethodArgs_move src =
     (let this = WmiMethodArgs_new
      in (this\<lparr>arguments := arguments src\<rparr>, src\<lparr>arguments := arguments this\<rparr>))"

text \<open>The destructor walks the collection and frees the string of every \<open>VT_BSTR\<close> member.\<close>

fun WmiMethodArgs_dtor_loop :: "arguments_t \<Rightarrow> world \<Rightarrow> world" where
  "WmiMethodArgs_dtor_loop [] w = w"
| "WmiMethodArgs_dtor_loop (p # ps) w =
     (let var = snd p
      in WmiMethodArgs_dtor_loop ps
           (if vt var = VT_BSTR \<and> bstrVal var \<noteq> None then SysFreeString (bstrVal var) w else w))"

definition WmiMethodArgs_dtor :: "WmiMethodArgs \<Rightarrow> world \<Rightarrow> world" where
  "WmiMethodArgs_dtor a w = WmiMethodArgs_dtor_loop (arguments a) w"

text \<open>
  \<open>Put\<close> declares a local \<open>VARIANT var\<close> without initialising it, then assigns the tag and
  one member. \<open>junk\<close> is what the uninitialised local holds.
\<close>

definition Put_unsigned_int ::
  "container_order \<Rightarrow> VARIANT \<Rightarrow> string \<Rightarrow> 32 word \<Rightarrow> WmiMethodArgs
     \<Rightarrow> Status \<times> WmiMethodArgs" where
  "Put_unsigned_int arrange junk name val a =
     (let var = junk;
          var = var\<lparr>vt := VT_UI4\<rparr>;
          var = set_ulVal val var
      in (Status_success, a\<lparr>arguments := arguments_insert arrange (name, var) (arguments a)\<rparr>))"

definition Put_string ::
  "externals \<Rightarrow> container_order \<Rightarrow> VARIANT \<Rightarrow> string \<Rightarrow> string \<Rightarrow> WmiMethodArgs \<Rightarrow> world
     \<Rightarrow> Status \<times> WmiMethodArgs \<times> world" where
  "Put_string X arrange junk name val a w =
     (let wide_value = stringToWstring X val;
          var = junk;
          var = var\<lparr>vt := VT_BSTR\<rparr>;
          (p, w) = SysAllocString (c_str wide_value) w;
          var = var\<lparr>bstrVal := p\<rparr>
      in if bstrVal var = None then (Status_failure ''Out of memory'', a, w)
         else (Status_success,
               a\<lparr>arguments := arguments_insert arrange (name, var) (arguments a)\<rparr>, w))"

text \<open>A sequence of \<open>Put\<close> calls on one collection, with the status of each call.\<close>

datatype put_call =
    PutUnsignedInt VARIANT string "32 word"
  | PutString VARIANT string string

fun put_name :: "put_call \<Rightarrow> string" where
  "put_name (PutUnsignedInt junk name val) = name"
| "put_name (PutString junk name val) = name"

fun run_put ::
  "externals \<Rightarrow> container_order \<Rightarrow> put_call \<Rightarrow> WmiMethodArgs \<times> world
     \<Rightarrow> Status \<times> WmiMethodArgs \<times> world" where
  "run_put X arrange (PutUnsignedInt junk name val) (a, w) =
     (let (st, a') = Put_unsigned_int arrange junk name val a in (st, a', w))"
| "run_put X arrange (PutString junk name val) (a, w) = Put_string X arrange junk name val a w"

fun run_puts ::
  "externals \<Rightarrow> container_order \<Rightarrow> put_call list \<Rightarrow> WmiMethodArgs \<times> world
     \<Rightarrow> Status list \<times> WmiMethodArgs \<times> world" where
  "run_puts X arrange [] (a, w) = ([], a, w)"
| "run_puts X arrange (c # cs) (a, w) =
     (let (st, a', w') = run_put X arrange c (a, w);
          (sts, a'', w'') = run_puts X arrange cs (a', w')
      in (st # sts, a'', w''))"

section \<open>Requests\<close>

subsection \<open>The remote interfaces a request talks to\<close>

text \<open>
  Each interface is the table of answers its methods give. An answer is the \<open>HRESULT\<close>
  together with the handle written to the out-parameter; the source uses the handle only
  after it has accepted the \<open>HRESULT\<close>.

  A forward-only enumerator holds the answers it still has to give to \<open>Next\<close>, each with
  at most one object (the source asks for one object per call, so the returned count is the
  number of objects in the answer). Once it has none left, \<open>Next\<close> reports the end of the
  results: \<open>WBEM_S_FALSE\<close> and no object.
\<close>

record IEnumWbemClassObject =
  pending :: "(HRESULT \<times> IWbemClassObject option) list"

definition Next ::
  "IEnumWbemClassObject \<Rightarrow> (HRESULT \<times> IWbemClassObject option) \<times> IEnumWbemClassObject" where
  "Next e =
     (case pending e of
        [] \<Rightarrow> ((WBEM_S_FALSE, None), e)
      | r # rs \<Rightarrow> (r, e\<lparr>pending := rs\<rparr>))"

text \<open>
  \<open>ExecMethod\<close> works with four \<open>IWbemClassObject\<close> handles in different roles; each role
  is a record of the one method the source calls on it: the class definition
  (\<open>GetMethod\<close>), the definition of a method's input parameters (\<open>SpawnInstance\<close>; the
  source notes that \<open>GetMethod\<close> leaves this handle null when the method has no
  in-parameters), the spawned argument instance (\<open>Put\<close>) and the output parameters (a result
  item's handle). The remote method sees an argument instance as the properties put into
  it, in call order, and sees \<open>None\<close> for a null instance.
\<close>

record args_inst_object =
  Put :: "wstring \<Rightarrow> VARIANT \<Rightarrow> HRESULT"

record in_def_object =
  SpawnInstance :: "HRESULT \<times> args_inst_object"

record class_object =
  GetMethod :: "wstring \<Rightarrow> HRESULT \<times> in_def_object option"

record IWbemServices =
  ExecQuery :: "wstring \<Rightarrow> HRESULT \<times> IEnumWbemClassObject"
  GetObject :: "wstring \<Rightarrow> HRESULT \<times> class_object"
  ExecMethod :: "wstring \<Rightarrow> wstring \<Rightarrow> (wstring \<times> VARIANT) list option \<Rightarrow> HRESULT \<times> IWbemClassObject"

record IWbemLocator =
  ConnectServer :: "wstring \<Rightarrow> HRESULT \<times> IWbemServices"

record COM =
  CoInitializeSecurity :: HRESULT
  CoCreateInstance_WbemLocator :: "HRESULT \<times> IWbemLocator"

subsection \<open>Construction\<close>

text \<open>
  The members \<open>status_\<close>, \<open>results_\<close>, \<open>locator_\<close>, \<open>enum_\<close> and \<open>services_\<close> are written
  with the suffix \<open>_m\<close>.
\<close>

record WmiRequest =
  status_m :: Status
  results_m :: "WmiResultItem list"
  locator_m :: "IWbemLocator option"
  enum_m :: "IEnumWbemClassObject option"
  services_m :: "IWbemServices option"

text \<open>
  The drain loop
  \<^verbatim>\<open>while (hr == WBEM_S_NO_ERROR) { hr = enum_->Next(...); if (SUCCEEDED(hr) && result_count > 0) results_.emplace_back(result); }\<close>
  takes the current \<open>hr\<close>, the enumerator and the results collected so far.
\<close>

function drain ::
  "HRESULT \<Rightarrow> IEnumWbemClassObject \<Rightarrow> WmiResultItem list \<Rightarrow> world
     \<Rightarrow> IEnumWbemClassObject \<times> WmiResultItem list \<times> world" where
  "drain hr e results w =
     (if hr = WBEM_S_NO_ERROR
      then
        let reply = Next e;
            hr' = fst (fst reply);
            result = snd (fst reply);
            e' = snd reply;
            w' = remote_call Call_Next w;
            results' =
              (case result of
                 Some obj \<Rightarrow> if SUCCEEDED hr' then results @ [\<lparr>result_m = obj\<rparr>] else results
               | None \<Rightarrow> results)
        in drain hr' e' results' w'
      else (e, results, w))"
  by pat_completeness auto
termination
proof (relation "measure (\<lambda>(hr, e, results, w).
          if hr = WBEM_S_NO_ERROR then Suc (length (pending e)) else 0)")
  show "wf (measure (\<lambda>(hr, e, results, w).
          if hr = WBEM_S_NO_ERROR then Suc (length (pending e)) else 0))"
    by simp
next
  fix hr :: HRESULT and e :: IEnumWbemClassObject and results :: "WmiResultItem list"
    and w :: world and reply hr' result e' w' results'
  assume "hr = WBEM_S_NO_ERROR" and "reply = Next e" and "hr' = fst (fst reply)"
    and "e' = snd reply"
  then show "((hr', e', results', w'), (hr, e, results, w))
     \<in> measure (\<lambda>(hr, e, results, w).
          if hr = WBEM_S_NO_ERROR then Suc (length (pending e)) else 0)"
    by (cases "pending e") (simp_all add: Next_def WBEM_S_FALSE_def WBEM_S_NO_ERROR_def)
qed

text \<open>
  The constructor. \<open>status0\<close> is the value the member \<open>status_\<close> holds when the body starts
  (its declaration is in \<open>wmi.h\<close>, not among the sources); the containers and the three
  owning pointers start empty. The result of \<open>CoInitializeSecurity\<close> is assigned to \<open>hr\<close>
  and overwritten by the next call before it is read.
\<close>

definition WmiRequest_ctor ::
  "externals \<Rightarrow> COM \<Rightarrow> Status \<Rightarrow> string \<Rightarrow> wstring \<Rightarrow> world \<Rightarrow> WmiRequest \<times> world" where
  "WmiRequest_ctor X com status0 query nspace w =
     (let this = \<lparr>status_m = status0, results_m = [], locator_m = None, enum_m = None,
                  services_m = None\<rparr>;
          wql = stringToWstring X query;
          hr = E_FAIL;
          hr = CoInitializeSecurity com;
          w = remote_call Call_CoInitializeSecurity w;
          (hr, locator) = CoCreateInstance_WbemLocator com;
          w = remote_call Call_CoCreateInstance w
      in if hr \<noteq> S_OK then (this, w)
         else
           let this = this\<lparr>locator_m := Some locator\<rparr>;
               (hr, services) = ConnectServer locator nspace;
               w = remote_call (Call_ConnectServer nspace) w
           in if hr \<noteq> S_OK then (this, w)
              else
                let this = this\<lparr>services_m := Some services\<rparr>;
                    (hr, wbem_enum) = ExecQuery services (c_str wql);
                    w = remote_call (Call_ExecQuery (c_str wql)) w
                in if hr \<noteq> S_OK then (this, w)
                   else
                     let this = this\<lparr>enum_m := Some wbem_enum\<rparr>;
                         hr = WBEM_S_NO_ERROR;
                         (e, results, w) = drain hr wbem_enum (results_m this) w
                     in (this\<lparr>enum_m := Some e, results_m := results,
                              status_m := Status_code 0\<rparr>, w))"


definition results :: "WmiRequest \<Rightarrow> WmiResultItem list" where
  "results r = results_m r"

subsection \<open>Method invocation\<close>

definition WbemClassObjectPropToBSTR ::
  "externals \<Rightarrow> WmiResultItem \<Rightarrow> string \<Rightarrow> world \<Rightarrow> BSTR \<times> world" where
  "WbemClassObjectPropToBSTR X item property w =
     (let value = [];
          (status, value) = GetString X item property value
      in if \<not> ok status then (None, w)
         else
           let wstr_value = stringToWstring X value
           in SysAllocString (c_str wstr_value) w)"

text \<open>
  The loop that copies the method arguments into the spawned instance; \<open>put\<close> collects the
  properties put so far. The first component tells whether every \<open>Put\<close> was accepted.
\<close>

fun put_arguments ::
  "externals \<Rightarrow> args_inst_object \<Rightarrow> arguments_t \<Rightarrow> (wstring \<times> VARIANT) list \<Rightarrow> world
     \<Rightarrow> bool \<times> (wstring \<times> VARIANT) list \<times> world" where
  "put_arguments X args_inst [] put w = (True, put, w)"
| "put_arguments X args_inst (p # ps) put w =
     (let name = fst p;
          pVal = snd p;
          args_name = stringToWstring X name;
          hr = Put args_inst (c_str args_name) pVal;
          w = remote_call (Call_Put (c_str args_name) pVal) w
      in if FAILED hr then (False, put, w)
         else put_arguments X args_inst ps (put @ [(c_str args_name, pVal)]) w)"

text \<open>
  \<open>ExecMethod\<close> is given in three parts, in source order. The middle part is the block
  guarded by \<open>if (in_def != nullptr)\<close>: it yields the message of the failure that ends the
  call there, if any, and the argument instance (\<open>None\<close> when \<open>args_inst\<close> stays null).
\<close>

definition ExecMethod_args_inst ::
  "externals \<Rightarrow> in_def_object option \<Rightarrow> WmiMethodArgs \<Rightarrow> world
     \<Rightarrow> string option \<times> (wstring \<times> VARIANT) list option \<times> world" where
  "ExecMethod_args_inst X in_def args w =
     (case in_def of
        None \<Rightarrow> (None, None, w)
      | Some in_def' \<Rightarrow>
          (let (hr, raw) = SpawnInstance in_def';
               w = remote_call Call_SpawnInstance w
           in if FAILED hr then (Some ''Failed to SpawnInstance'', None, w)
              else
                (let (accepted, put, w) = put_arguments X raw (GetArguments args) [] w
                 in if \<not> accepted then (Some ''Failed to Put arguments'', Some put, w)
                    else (None, Some put, w))))"

text \<open>The last part: the two strings are allocated, the remote method is invoked.\<close>

definition ExecMethod_invoke ::
  "externals \<Rightarrow> IWbemServices \<Rightarrow> WmiResultItem \<Rightarrow> wstring \<Rightarrow> (wstring \<times> VARIANT) list option
     \<Rightarrow> WmiResultItem \<Rightarrow> world \<Rightarrow> Status \<times> WmiResultItem \<times> world" where
  "ExecMethod_invoke X services object property_name args_inst out_result w =
     (let (wmi_meth_name, w) = SysAllocString (c_str property_name) w
      in (case wmi_meth_name of
            None \<Rightarrow> (Status_failure ''Out of memory'', out_result, w)
          | Some meth_name \<Rightarrow>
              (let (wmi_obj_path, w) = WbemClassObjectPropToBSTR X object ''__PATH'' w
               in (case wmi_obj_path of
                     None \<Rightarrow>
                       (Status_failure ''Out of memory'', out_result,
                        SysFreeString wmi_meth_name w)
                   | Some obj_path \<Rightarrow>
                       (let (hr, out_params) =
                              ExecMethod services (chars obj_path) (chars meth_name) args_inst;
                            w = remote_call
                                  (Call_ExecMethod (chars obj_path) (chars meth_name)
                                     (args_inst = None)) w;
                            w = SysFreeString wmi_meth_name w;
                            w = SysFreeString wmi_obj_path w
                        in if FAILED hr
                           then (Status_failure ''Failed to ExecMethod'', out_result, w)
                           else (Status_success, \<lparr>result_m = out_params\<rparr>, w))))))"

text \<open>
  \<open>services_\<close> is null in a request whose construction stopped before the service was
  bound; \<open>ExecMethod\<close> dereferences it without a check.
\<close>

datatype fault = null_dereference

definition WmiRequest_ExecMethod ::
  "externals \<Rightarrow> WmiRequest \<Rightarrow> WmiResultItem \<Rightarrow> string \<Rightarrow> WmiMethodArgs \<Rightarrow> WmiResultItem \<Rightarrow> world
     \<Rightarrow> fault + Status \<times> WmiResultItem \<times> world" where
  "WmiRequest_ExecMethod X this object method args out_result w =
     (let property_name = stringToWstring X method;
          (wmi_class_name, w) = WbemClassObjectPropToBSTR X object ''__CLASS'' w
      in (case wmi_class_name of
            None \<Rightarrow> Inr (Status_failure ''Class name out of memory'', out_result, w)
          | Some class_name \<Rightarrow>
              (case services_m this of
                 None \<Rightarrow> Inl null_dereference
               | Some services \<Rightarrow>
                   (let (hr, class_obj) = GetObject services (chars class_name);
                        w = remote_call (Call_GetObject (chars class_name)) w;
                        w = SysFreeString wmi_class_name w
                    in if FAILED hr
                       then Inr (Status_failure ''Failed to GetObject'', out_result, w)
                       else
                         (let (hr, in_def) = GetMethod class_obj (c_str property_name);
                              w = remote_call (Call_GetMethod (c_str property_name)) w
                          in if FAILED hr
                             then Inr (Status_failure ''Failed to GetMethod'', out_result, w)
                             else
                               (let (failure, args_inst, w) = ExecMethod_args_inst X in_def args w
                                in (case failure of
                                      Some message \<Rightarrow>
                                        Inr (Status_failure message, out_result, w)
                                    | None \<Rightarrow>
                                        Inr (ExecMethod_invoke X services object property_name
                                               args_inst out_result w))))))))"

section \<open>Concrete inputs\<close>

text \<open>
  A transcoding double for the external string services (every character is one code
  unit), a field holding a scalar, and an object that answers every property name with
  \<open>S_OK\<close> and one given value.
\<close>

definition example_externals :: externals where
  "example_externals =
     \<lparr>stringToWstring = map (\<lambda>c. of_nat (of_char c)),
      bstrToString = (\<lambda>p. case p of None \<Rightarrow> [] | Some b \<Rightarrow> map (\<lambda>u. char_of (unat u)) (chars b)),
      wtoi64 = (\<lambda>p. 0),
      CoCreateInstance_SWbemDateTime =
        (E_FAIL, \<lparr>put_Value = (\<lambda>p. E_FAIL), GetFileTime = (\<lambda>p l. (E_FAIL, None))\<rparr>)\<rparr>"

definition empty_array :: SAFEARRAY where
  "empty_array = \<lparr>lLbound = 0, pvData = []\<rparr>"

definition scalar_field :: "VARTYPE \<Rightarrow> 64 word \<Rightarrow> VARIANT" where
  "scalar_field t x = \<lparr>vt = t, bits = x, bstrVal = None, parray = empty_array\<rparr>"

definition single_field_item :: "VARIANT \<Rightarrow> WmiResultItem" where
  "single_field_item v = \<lparr>result_m = \<lparr>Get = (\<lambda>n. (S_OK, v))\<rparr>\<rparr>"

definition example_strings :: SAFEARRAY where
  "example_strings =
     \<lparr>lLbound = 5,
      pvData = [Some \<lparr>addr = 1, chars = [97, 98]\<rparr>, None, Some \<lparr>addr = 2, chars = [99]\<rparr>]\<rparr>"

definition string_array_field :: "SAFEARRAY \<Rightarrow> VARIANT" where
  "string_array_field a = \<lparr>vt = VT_BSTR OR VT_ARRAY, bits = 0, bstrVal = None, parray = a\<rparr>"

section \<open>Notions used to state the claims about method arguments\<close>

text \<open>
  The addresses of the strings held by the members tagged \<open>VT_BSTR\<close>, in collection order:
  the strings the collection owns.
\<close>

fun bstr_members :: "arguments_t \<Rightarrow> nat list" where
  "bstr_members [] = []"
| "bstr_members (p # ps) =
     (if vt (snd p) = VT_BSTR
      then (case bstrVal (snd p) of None \<Rightarrow> [] | Some b \<Rightarrow> [addr b])
      else []) @ bstr_members ps"

text \<open>An entry of the collection is the one a given \<open>Put\<close> call makes: name, tag and value.\<close>

fun entry_matches :: "externals \<Rightarrow> put_call \<Rightarrow> string \<times> VARIANT \<Rightarrow> bool" where
  "entry_matches X (PutUnsignedInt junk name val) (n, v) =
     (n = name \<and> vt v = VT_UI4 \<and> ulVal v = val)"
| "entry_matches X (PutString junk name val) (n, v) =
     (n = name \<and> vt v = VT_BSTR \<and> map_option chars (bstrVal v) = Some (c_str (stringToWstring X val)))"

text \<open>The calls of a sequence that returned success, given the status of each call.\<close>

definition successful_puts :: "put_call list \<Rightarrow> Status list \<Rightarrow> put_call list" where
  "successful_puts cs sts = map fst (filter (\<lambda>p. ok (snd p)) (zip cs sts))"

text \<open>
  Concrete inputs: the calls \<open>Put("n1", 5u)\<close> and \<open>Put("n2", "hello")\<close>, an allocator with
  room for four strings, a container that iterates over its pairs in another order than
  they were inserted in, and the collection the two calls build in it.
\<close>

definition example_puts :: "put_call list" where
  "example_puts =
     [PutUnsignedInt (scalar_field 0 0) ''n1'' 5, PutString (scalar_field 0 0) ''n2'' ''hello'']"

definition example_world :: world where
  "example_world = \<lparr>room = 4, fresh = 1, frees = [], calls = []\<rparr>"

definition example_arrange :: container_order where
  "example_arrange ys = rev ys"

definition example_args :: WmiMethodArgs where
  "example_args =
     \<lparr>arguments =
        [(''n2'', \<lparr>vt = VT_BSTR, bits = 0,
                  bstrVal = Some \<lparr>addr = 1,
                                 chars = c_str (stringToWstring example_externals ''hello'')\<rparr>,
                  parray = empty_array\<rparr>),
         (''n1'', scalar_field VT_UI4 5)]\<rparr>"

text \<open>
  Every string a collection owns was allocated by a \<open>Put\<close> call at the then fresh address, so
  the owned addresses are below the allocator's next address and pairwise different.
\<close>

definition owns_distinct :: "WmiMethodArgs \<Rightarrow> world \<Rightarrow> bool" where
  "owns_distinct a w =
     (distinct (bstr_members (arguments a)) \<and> list_all (\<lambda>p. p < fresh w) (bstr_members (arguments a)))"

section \<open>Notions used to state the claims about requests\<close>

text \<open>
  What the drain loop collects from the answers an enumerator has pending, and how many
  \<open>Next\<close> calls it makes: it stops after the first answer whose \<open>HRESULT\<close> is not
  \<open>WBEM_S_NO_ERROR\<close>, be it the end of the results or an error, and after one more call when
  the pending answers run out.
\<close>

fun collected :: "(HRESULT \<times> IWbemClassObject option) list \<Rightarrow> IWbemClassObject list" where
  "collected [] = []"
| "collected (r # rs) =
     (case snd r of Some obj \<Rightarrow> if SUCCEEDED (fst r) then [obj] else [] | None \<Rightarrow> [])
       @ (if fst r = WBEM_S_NO_ERROR then collected rs else [])"

fun next_calls :: "(HRESULT \<times> IWbemClassObject option) list \<Rightarrow> nat" where
  "next_calls [] = 1"
| "next_calls (r # rs) = (if fst r = WBEM_S_NO_ERROR then Suc (next_calls rs) else 1)"

text \<open>The remote calls that build an argument instance.\<close>

fun is_argument_call :: "call \<Rightarrow> bool" where
  "is_argument_call Call_SpawnInstance = True"
| "is_argument_call (Call_Put n v) = True"
| "is_argument_call c = False"

text \<open>
  Concrete remote services: an object with one string-valued answer for every property, an
  enumerator, a service whose classes have methods without in-parameters, a locator and
  the platform calls.
\<close>

definition example_object :: IWbemClassObject where
  "example_object =
     \<lparr>Get = (\<lambda>n. (S_OK, \<lparr>vt = VT_BSTR, bits = 0,
                           bstrVal = Some \<lparr>addr = 100, chars = [87]\<rparr>,
                           parray = empty_array\<rparr>))\<rparr>"

definition example_services :: "(HRESULT \<times> IWbemClassObject option) list \<Rightarrow> IWbemServices" where
  "example_services answers =
     \<lparr>ExecQuery = (\<lambda>q. (S_OK, \<lparr>pending = answers\<rparr>)),
      GetObject = (\<lambda>c. (S_OK, \<lparr>GetMethod = (\<lambda>m. (S_OK, None))\<rparr>)),
      ExecMethod = (\<lambda>p m a. (S_OK, example_object))\<rparr>"

definition rejecting_services :: IWbemServices where
  "rejecting_services = (example_services [])\<lparr>ExecQuery := (\<lambda>q. (WBEM_E_FAILED, \<lparr>pending = []\<rparr>))\<rparr>"

definition example_com :: "HRESULT \<Rightarrow> IWbemServices \<Rightarrow> COM" where
  "example_com security services =
     \<lparr>CoInitializeSecurity = security,
      CoCreateInstance_WbemLocator = (S_OK, \<lparr>ConnectServer = (\<lambda>n. (S_OK, services))\<rparr>)\<rparr>"

definition connected_request :: WmiRequest where
  "connected_request =
     \<lparr>status_m = Status_code 0, results_m = [], locator_m = None, enum_m = None,
      services_m = Some (example_services [])\<rparr>"

section \<open>Facts about the platform types\<close>

lemmas vt_defs = VT_I4_def VT_BSTR_def VT_BOOL_def VT_UI1_def VT_UI2_def VT_UI4_def
  VT_I8_def VT_UI8_def VT_UINT_def VT_ARRAY_def

lemma ulVal_set_ulVal: "ulVal (set_ulVal x v) = x"
  unfolding ulVal_def set_ulVal_def
  by (simp, rule bit_word_eqI) (auto simp: bit_simps)

lemma vt_set_ulVal: "vt (set_ulVal x v) = vt v"
  by (simp add: set_ulVal_def)

lemma bstrVal_set_ulVal: "bstrVal (set_ulVal x v) = bstrVal v"
  by (simp add: set_ulVal_def)

lemma sint_of_nat_long:
  assumes "n < 2 ^ 31"
  shows "sint (of_nat n :: 32 word) = int n"
proof -
  have "sint (of_nat n :: 32 word) = signed_take_bit 31 (int n)"
    by (simp add: signed_of_nat)
  also have "\<dots> = int n"
    using assms by (intro signed_take_bit_int_eq_self) auto
  finally show ?thesis .
qed

lemma SafeArray_count:
  "SafeArrayGetUBound a - SafeArrayGetLBound a + 1 = (of_nat (length (pvData a)) :: 32 word)"
  by (simp add: SafeArrayGetUBound_def SafeArrayGetLBound_def)

section \<open>The copy loop of \<open>GetVectorOfStrings\<close>\<close>

lemma GetVectorOfStrings_loop_eq:
  "0 \<le> i \<Longrightarrow> cnt \<le> int (length pData) \<Longrightarrow>
   GetVectorOfStrings_loop X pData cnt i ret =
     ret @ map (bstrToString X) (drop (nat i) (take (nat cnt) pData))"
proof (induction X pData cnt i ret rule: GetVectorOfStrings_loop.induct)
  case (1 X pData cnt i ret)
  show ?case
  proof (cases "i < cnt")
    case True
    have lt: "nat i < length (take (nat cnt) pData)"
      using True 1(2,3) by simp
    have "drop (nat i) (take (nat cnt) pData) =
            pData ! nat i # drop (nat (i + 1)) (take (nat cnt) pData)"
      using Cons_nth_drop_Suc [OF lt, symmetric] 1(2) lt by (simp add: nat_add_distrib)
    moreover have "GetVectorOfStrings_loop X pData cnt (i + 1)
          (ret @ [bstrToString X (pData ! nat i)])
        = (ret @ [bstrToString X (pData ! nat i)])
            @ map (bstrToString X) (drop (nat (i + 1)) (take (nat cnt) pData))"
      using 1 True by simp
    ultimately show ?thesis using True
      by (subst GetVectorOfStrings_loop.simps) simp
  next
    case False
    then show ?thesis using 1(2) by (subst GetVectorOfStrings_loop.simps) simp
  qed
qed

lemma GetVectorOfStrings_success:
  assumes "Get (result_m item) (c_str (stringToWstring X name)) = (S_OK, v)"
    and "vt v = (VT_BSTR OR VT_ARRAY)"
    and "length (pvData (parray v)) < 2 ^ 31"
  shows "GetVectorOfStrings X item name ret =
           Inr (Status_success, ret @ map (bstrToString X) (pvData (parray v)))"
proof -
  have c: "sint (SafeArrayGetUBound (parray v) - SafeArrayGetLBound (parray v) + 1)
                 = int (length (pvData (parray v)))"
    using assms(3) by (simp only: SafeArray_count sint_of_nat_long)
  have "GetVectorOfStrings_loop X (pvData (parray v)) (int (length (pvData (parray v)))) 0 ret
          = ret @ map (bstrToString X) (pvData (parray v))"
    by (subst GetVectorOfStrings_loop_eq) simp_all
  then show ?thesis
    using assms(1,2) c by (simp add: GetVectorOfStrings_def Let_def)
qed

section \<open>Method arguments: the collection and the strings it owns\<close>

lemma c_str_c_str [simp]: "c_str (c_str s) = c_str s"
  by (simp add: c_str_def)

lemma ok_Status_success [simp]: "ok Status_success"
  by (simp add: ok_def Status_success_def Status_code_def)

lemma ok_Status_failure [simp]: "\<not> ok (Status_failure m)"
  by (simp add: ok_def Status_failure_def)

lemma bstr_members_append: "bstr_members (xs @ ys) = bstr_members xs @ bstr_members ys"
  by (induction xs) simp_all

lemma mset_bstr_members:
  "mset (bstr_members xs) =
     (\<Sum>p\<in>#mset xs. mset (if vt (snd p) = VT_BSTR
                             then (case bstrVal (snd p) of None \<Rightarrow> [] | Some b \<Rightarrow> [addr b])
                             else []))"
  by (induction xs) simp_all

lemma bstr_members_rearranged:
  assumes "mset ys = mset xs"
  shows "mset (bstr_members ys) = mset (bstr_members xs)"
  by (simp only: mset_bstr_members assms)

lemma dtor_loop_frees:
  "frees (WmiMethodArgs_dtor_loop xs w) = frees w @ bstr_members xs"
proof (induction xs arbitrary: w)
  case Nil
  then show ?case by simp
next
  case (Cons p ps)
  show ?case
  proof (cases "vt (snd p) = VT_BSTR \<and> bstrVal (snd p) \<noteq> None")
    case True
    then obtain b where b: "bstrVal (snd p) = Some b" by auto
    with True Cons.IH show ?thesis
      by (simp add: SysFreeString_def)
  next
    case False
    with Cons.IH show ?thesis by auto
  qed
qed

text \<open>
  What a \<open>Put\<close> with a new name does to the collection: when it returns success, one pair
  with the name, tag and value of the call joins the pairs, which are then rearranged; when
  it fails, the collection is as before.
\<close>

lemma run_put_entry:
  assumes "run_put X arrange c (a, w) = (st, a1, w1)"
    and "put_name c \<notin> set (map fst (arguments a))"
  shows "if ok st
         then \<exists>v. arguments a1 = arrange (arguments a @ [(put_name c, v)])
                \<and> entry_matches X c (put_name c, v)
         else a1 = a"
proof (cases c)
  case (PutUnsignedInt junk name val)
  with assms show ?thesis
    by (auto simp: Put_unsigned_int_def arguments_insert_def Let_def vt_set_ulVal ulVal_set_ulVal)
next
  case (PutString junk name val)
  with assms show ?thesis
    by (auto simp: Put_string_def SysAllocString_def arguments_insert_def Let_def
        split: if_splits)
qed

lemma entry_matches_names:
  "list_all2 (entry_matches X) cs new \<Longrightarrow> map fst new = map put_name cs"
proof (induction rule: list_all2_induct)
  case Nil
  then show ?case by simp
next
  case (Cons c cs e es)
  from Cons(1) have "fst e = put_name c"
    by (cases c; cases e) simp_all
  with Cons(3) show ?case by simp
qed

text \<open>
  A sequence of \<open>Put\<close> calls with pairwise different, new names adds one pair for each call
  that returns success, with the name, tag and value of that call; a failing call adds
  nothing. The order in which the container then iterates over the pairs is \<open>arrange\<close>'s.
\<close>

lemma run_puts_entries:
  assumes "\<And>ys. mset (arrange ys) = mset ys"
    and "run_puts X arrange cs (a, w) = (sts, a', w')"
    and "distinct (map fst (arguments a) @ map put_name cs)"
  shows "length sts = length cs
     \<and> (\<exists>new. mset (arguments a') = mset (arguments a) + mset new
            \<and> list_all2 (entry_matches X) (successful_puts cs sts) new)"
  using assms(2,3)
proof (induction cs arbitrary: a w sts a' w')
  case Nil
  then show ?case by (simp add: successful_puts_def)
next
  case (Cons c cs)
  obtain st a1 w1 where step: "run_put X arrange c (a, w) = (st, a1, w1)"
    by (cases "run_put X arrange c (a, w)") auto
  obtain sts1 a2 w2 where rest: "run_puts X arrange cs (a1, w1) = (sts1, a2, w2)"
    by (cases "run_puts X arrange cs (a1, w1)") auto
  from Cons.prems(1) step rest have eqs: "sts = st # sts1" "a' = a2" "w' = w2"
    by simp_all
  from Cons.prems(2) have fresh_name: "put_name c \<notin> set (map fst (arguments a))"
    by auto
  note entry = run_put_entry [OF step fresh_name]
  show ?case
  proof (cases "ok st")
    case True
    with entry obtain v where v: "arguments a1 = arrange (arguments a @ [(put_name c, v)])"
      "entry_matches X c (put_name c, v)"
      by auto
    have m1: "mset (arguments a1) = mset (arguments a) + {#(put_name c, v)#}"
      using v(1) assms(1) by simp
    then have "mset (map fst (arguments a1)) = mset (map fst (arguments a)) + {#put_name c#}"
      by (metis (no_types, lifting) fst_conv image_mset_single image_mset_union mset_map)
    then have keys: "set (map fst (arguments a1))
          = insert (put_name c) (set (map fst (arguments a)))"
      and dkeys: "distinct (map fst (arguments a1))
          = distinct (put_name c # map fst (arguments a))"
      by (metis add_mset_add_single mset.simps(2) mset_eq_setD list.simps(15),
          metis add_mset_add_single mset.simps(2) mset_eq_imp_distinct_iff)
    from Cons.prems(2) keys dkeys have "distinct (map fst (arguments a1) @ map put_name cs)"
      by auto
    from Cons.IH [OF rest this]
    obtain new where new: "length sts1 = length cs"
      "mset (arguments a2) = mset (arguments a1) + mset new"
      "list_all2 (entry_matches X) (successful_puts cs sts1) new"
      by blast
    have "successful_puts (c # cs) (st # sts1) = c # successful_puts cs sts1"
      using True by (simp add: successful_puts_def)
    with v m1 new eqs show ?thesis
      by (intro conjI exI [of _ "(put_name c, v) # new"]) simp_all
  next
    case False
    with entry have "a1 = a"
      by simp
    with Cons.prems(2) have "distinct (map fst (arguments a1) @ map put_name cs)"
      by simp
    from Cons.IH [OF rest this] \<open>a1 = a\<close>
    obtain new where new: "length sts1 = length cs"
      "mset (arguments a2) = mset (arguments a) + mset new"
      "list_all2 (entry_matches X) (successful_puts cs sts1) new"
      by auto
    have "successful_puts (c # cs) (st # sts1) = successful_puts cs sts1"
      using False by (simp add: successful_puts_def)
    with new eqs show ?thesis
      by auto
  qed
qed

lemma successful_puts_all:
  "length sts = length cs \<Longrightarrow> list_all ok sts \<Longrightarrow> successful_puts cs sts = cs"
  unfolding successful_puts_def
proof (induction cs arbitrary: sts)
  case Nil
  then show ?case by simp
next
  case (Cons c cs)
  then show ?case by (cases sts) simp_all
qed

lemma bstr_members_insert:
  assumes "\<And>ys. mset (arrange ys) = mset ys"
  shows "mset (bstr_members (arguments_insert arrange p xs)) =
           (if fst p \<in> set (map fst xs) then mset (bstr_members xs)
            else mset (bstr_members (xs @ [p])))"
  by (simp add: arguments_insert_def bstr_members_rearranged [OF assms])

lemma owns_distinct_rearranged:
  assumes "mset (bstr_members (arguments a1)) = mset (bstr_members (arguments a))"
    and "fresh w \<le> fresh w1" and "owns_distinct a w"
  shows "owns_distinct a1 w1"
  using assms(2,3) mset_eq_imp_distinct_iff [OF assms(1)] mset_eq_setD [OF assms(1)]
  by (auto simp: owns_distinct_def list_all_iff)

lemma run_put_owns_distinct:
  assumes "\<And>ys. mset (arrange ys) = mset ys"
    and "run_put X arrange c (a, w) = (st, a1, w1)" and "owns_distinct a w"
  shows "owns_distinct a1 w1"
proof (cases c)
  case (PutUnsignedInt junk name val)
  let ?p = "(name, set_ulVal val (junk\<lparr>vt := VT_UI4\<rparr>))"
  from PutUnsignedInt assms(2)
  have a1: "arguments a1 = arguments_insert arrange ?p (arguments a)" and w1: "w1 = w"
    by (auto simp: Put_unsigned_int_def Let_def)
  have "bstr_members (arguments a @ [?p]) = bstr_members (arguments a)"
    by (simp add: bstr_members_append vt_set_ulVal vt_defs)
  then have "mset (bstr_members (arguments a1)) = mset (bstr_members (arguments a))"
    unfolding a1 bstr_members_insert [OF assms(1)] by simp
  from owns_distinct_rearranged [OF this _ assms(3)] w1 show ?thesis
    by simp
next
  case (PutString junk name val)
  show ?thesis
  proof (cases "room w = 0")
    case True
    with PutString assms(2) have "a1 = a" "w1 = w"
      by (auto simp: Put_string_def SysAllocString_def Let_def)
    with assms(3) show ?thesis by simp
  next
    case False
    let ?p = "(name, junk\<lparr>vt := VT_BSTR,
                 bstrVal := Some \<lparr>addr = fresh w, chars = c_str (stringToWstring X val)\<rparr>\<rparr>)"
    from False PutString assms(2)
    have a1: "arguments a1 = arguments_insert arrange ?p (arguments a)"
      and w1: "fresh w1 = Suc (fresh w)"
      by (auto simp: Put_string_def SysAllocString_def Let_def)
    show ?thesis
    proof (cases "name \<in> set (map fst (arguments a))")
      case True
      then have "mset (bstr_members (arguments a1)) = mset (bstr_members (arguments a))"
        unfolding a1 bstr_members_insert [OF assms(1)] by simp
      from owns_distinct_rearranged [OF this _ assms(3)] w1 show ?thesis
        by simp
    next
      case False
      then have m: "mset (bstr_members (arguments a1))
          = mset (bstr_members (arguments a) @ [fresh w])"
        unfolding a1 bstr_members_insert [OF assms(1)] by (simp add: bstr_members_append)
      from assms(3) have "distinct (bstr_members (arguments a) @ [fresh w])"
        and "\<forall>p \<in> set (bstr_members (arguments a) @ [fresh w]). p < Suc (fresh w)"
        by (auto simp: owns_distinct_def list_all_iff)
      with mset_eq_imp_distinct_iff [OF m] mset_eq_setD [OF m] w1 show ?thesis
        by (simp add: owns_distinct_def list_all_iff)
    qed
  qed
qed

lemma run_puts_owns_distinct:
  assumes "\<And>ys. mset (arrange ys) = mset ys"
    and "run_puts X arrange cs (a, w) = (sts, a', w')" and "owns_distinct a w"
  shows "owns_distinct a' w'"
  using assms(2,3)
proof (induction cs arbitrary: a w sts a' w')
  case Nil
  then show ?case by simp
next
  case (Cons c cs)
  obtain st a1 w1 where step: "run_put X arrange c (a, w) = (st, a1, w1)"
    by (cases "run_put X arrange c (a, w)") auto
  obtain sts1 a2 w2 where rest: "run_puts X arrange cs (a1, w1) = (sts1, a2, w2)"
    by (cases "run_puts X arrange cs (a1, w1)") auto
  from Cons.prems(1) step rest have "a' = a2" "w' = w2"
    by simp_all
  with Cons.IH [OF rest run_put_owns_distinct [OF assms(1) step Cons.prems(2)]] show ?case
    by simp
qed

section \<open>Requests: the drain loop and the call log\<close>


lemma FAILED_RPC_E_TOO_LATE: "FAILED RPC_E_TOO_LATE"
  by (simp add: FAILED_def RPC_E_TOO_LATE_def)

lemma not_FAILED_S_OK: "\<not> FAILED S_OK"
  by (simp add: FAILED_def S_OK_def)

declare drain.simps [simp del]

lemma drain_stop: "hr \<noteq> WBEM_S_NO_ERROR \<Longrightarrow> drain hr e rs w = (e, rs, w)"
  by (subst drain.simps) simp

lemma drain_step:
  "drain WBEM_S_NO_ERROR e rs w =
     drain (fst (fst (Next e))) (snd (Next e))
       (case snd (fst (Next e)) of
          Some obj \<Rightarrow> if SUCCEEDED (fst (fst (Next e))) then rs @ [\<lparr>result_m = obj\<rparr>] else rs
        | None \<Rightarrow> rs)
       (remote_call Call_Next w)"
  by (subst drain.simps) (simp add: Let_def)

lemma drain_eq:
  "fst (snd (drain WBEM_S_NO_ERROR e rs w))
     = rs @ map (\<lambda>obj. \<lparr>result_m = obj\<rparr>) (collected (pending e))
   \<and> calls (snd (snd (drain WBEM_S_NO_ERROR e rs w)))
     = calls w @ replicate (next_calls (pending e)) Call_Next"
proof (induction "pending e" arbitrary: e rs w)
  case Nil
  then have n: "Next e = ((WBEM_S_FALSE, None), e)"
    by (simp add: Next_def)
  have "WBEM_S_FALSE \<noteq> WBEM_S_NO_ERROR"
    by (simp add: WBEM_S_FALSE_def WBEM_S_NO_ERROR_def)
  then have "drain WBEM_S_NO_ERROR e rs w = (e, rs, remote_call Call_Next w)"
    using n by (simp add: drain_step drain_stop)
  then show ?case
    using Nil [symmetric] by (simp add: remote_call_def)
next
  case (Cons r rest)
  let ?e' = "e\<lparr>pending := rest\<rparr>"
  let ?rs' = "case snd r of
          Some obj \<Rightarrow> if SUCCEEDED (fst r) then rs @ [\<lparr>result_m = obj\<rparr>] else rs
        | None \<Rightarrow> rs"
  from Cons(2) [symmetric] have n: "Next e = (r, ?e')"
    by (simp add: Next_def)
  have step: "drain WBEM_S_NO_ERROR e rs w = drain (fst r) ?e' ?rs' (remote_call Call_Next w)"
    by (simp only: drain_step n fst_conv snd_conv)
  have rs': "?rs' = rs @ map (\<lambda>obj. \<lparr>result_m = obj\<rparr>)
       (case snd r of Some obj \<Rightarrow> if SUCCEEDED (fst r) then [obj] else [] | None \<Rightarrow> [])"
    by (simp split: option.split)
  show ?case
  proof (cases "fst r = WBEM_S_NO_ERROR")
    case True
    have p: "rest = pending ?e'"
      by simp
    have step': "drain WBEM_S_NO_ERROR e rs w
        = drain WBEM_S_NO_ERROR ?e' ?rs' (remote_call Call_Next w)"
      using step True by simp
    have c: "collected (pending e) =
        (case snd r of Some obj \<Rightarrow> if SUCCEEDED (fst r) then [obj] else [] | None \<Rightarrow> [])
          @ collected rest"
      "next_calls (pending e) = Suc (next_calls rest)"
      using True Cons(2) [symmetric] by simp_all
    from Cons(1) [OF p, of ?rs' "remote_call Call_Next w"] show ?thesis
      unfolding step' c rs'
      by (simp add: remote_call_def replicate_app_Cons_same)
  next
    case False
    have c: "collected (pending e) =
        (case snd r of Some obj \<Rightarrow> if SUCCEEDED (fst r) then [obj] else [] | None \<Rightarrow> [])"
      "next_calls (pending e) = 1"
      using False Cons(2) [symmetric] by simp_all
    from False show ?thesis
      unfolding step c rs'
      by (simp add: drain_stop remote_call_def)
  qed
qed

lemma calls_SysAllocString: "calls (snd (SysAllocString s w)) = calls w"
  by (simp add: SysAllocString_def)

lemma calls_SysFreeString: "calls (SysFreeString p w) = calls w"
  by (simp add: SysFreeString_def split: option.split)

lemma calls_WbemClassObjectPropToBSTR:
  "calls (snd (WbemClassObjectPropToBSTR X item property w)) = calls w"
  by (simp add: WbemClassObjectPropToBSTR_def Let_def calls_SysAllocString split: prod.split)

lemma calls_remote_call: "calls (remote_call c w) = calls w @ [c]"
  by (simp add: remote_call_def)

lemma ExecMethod_invoke_no_argument_calls:
  "filter is_argument_call
     (calls (snd (snd (ExecMethod_invoke X services object property_name args_inst out_result w))))
   = filter is_argument_call (calls w)"
proof -
  obtain p1 w1 where a: "SysAllocString (c_str property_name) w = (p1, w1)"
    by (cases "SysAllocString (c_str property_name) w") auto
  obtain p2 w2 where b: "WbemClassObjectPropToBSTR X object ''__PATH'' w1 = (p2, w2)"
    by (cases "WbemClassObjectPropToBSTR X object ''__PATH'' w1") auto
  have c1: "calls w1 = calls w"
    using calls_SysAllocString [of "c_str property_name" w] a by simp
  have c2: "calls w2 = calls w1"
    using calls_WbemClassObjectPropToBSTR [of X object "''__PATH''" w1] b by simp
  show ?thesis
    using a b c1 c2
    by (simp add: ExecMethod_invoke_def Let_def calls_SysFreeString calls_remote_call
        split: option.split prod.split)
qed

section \<open>Claims about the typed getters\<close>

text \<open>
  C1. The claim: when the field's tag is the 64-bit tag the getter expects (\<open>VT_I8\<close> for
  \<open>GetLongLong\<close>, \<open>VT_UI8\<close> for \<open>GetUnsignedLongLong\<close>), the getter succeeds and the output
  is the full 64-bit value stored in the dynamic value. The source assigns the 32-bit member
  \<open>lVal\<close> instead of the 64-bit member: at the stored value \<open>2 ^ 32\<close> both getters succeed
  and deliver 0, and at the stored unsigned value \<open>2 ^ 32 - 1\<close> \<open>GetUnsignedLongLong\<close>
  delivers \<open>2 ^ 64 - 1\<close>. The stored 64-bit values are read back by \<open>llVal\<close> and \<open>ullVal\<close>
  for comparison.
\<close>

theorem GetLongLong_reads_32_bit_member:
  "llVal (scalar_field VT_I8 0x100000000) = 0x100000000
   \<and> GetLongLong example_externals (single_field_item (scalar_field VT_I8 0x100000000))
        ''Size'' 7 = (Status_success, 0)
   \<and> ullVal (scalar_field VT_UI8 0x100000000) = 0x100000000
   \<and> GetUnsignedLongLong example_externals (single_field_item (scalar_field VT_UI8 0x100000000))
        ''Size'' 7 = (Status_success, 0)
   \<and> ullVal (scalar_field VT_UI8 0xFFFFFFFF) = 0xFFFFFFFF
   \<and> GetUnsignedLongLong example_externals (single_field_item (scalar_field VT_UI8 0xFFFFFFFF))
        ''Size'' 7 = (Status_success, 0xFFFFFFFFFFFFFFFF)"
  by (simp add: GetLongLong_def GetUnsignedLongLong_def single_field_item_def scalar_field_def
      lVal_def llVal_def ullVal_def)

text \<open>
  C2. The claim: for every typed getter, a field whose tag differs from the expected tag
  makes the call fail with a type-mismatch status and leaves the caller's output unchanged.
  \<open>GetString\<close> does not leave it unchanged: it assigns the empty string before it
  returns the failure. At a field tagged \<open>VT_I4\<close> and the output \<open>''old''\<close>:
\<close>

theorem GetString_mismatch_resets_output:
  "vt (scalar_field VT_I4 5) \<noteq> VT_BSTR
   \<and> GetString example_externals (single_field_item (scalar_field VT_I4 5)) ''Name'' ''old''
       = (Status_failure ''Invalid data type returned.'', '''')"
  by (simp add: GetString_def single_field_item_def scalar_field_def vt_defs)

text \<open>
  C2, amended. For a field that \<open>Get\<close> delivers with \<open>S_OK\<close> and whose tag differs from
  the tag a getter expects, the getter returns a failure status (\<open>Invalid data type
  returned.\<close>; for \<open>GetDateTime\<close>: \<open>Expected VT_BSTR, got something else.\<close>). Every getter
  but \<open>GetString\<close> leaves the output as it was; \<open>GetString\<close> sets it to the empty string.
\<close>

theorem getter_tag_mismatch:
  assumes "Get (result_m item) (c_str (stringToWstring X name)) = (S_OK, v)"
  shows
    "(vt v \<noteq> VT_BOOL \<longrightarrow>
        GetBool X item name b = (Status_failure ''Invalid data type returned.'', b))
     \<and> (vt v \<noteq> VT_UI1 \<longrightarrow>
        GetUChar X item name c = (Status_failure ''Invalid data type returned.'', c))
     \<and> (vt v \<noteq> VT_UI2 \<longrightarrow>
        GetUnsignedShort X item name us = (Status_failure ''Invalid data type returned.'', us))
     \<and> (vt v \<noteq> VT_UINT \<longrightarrow>
        GetUnsignedInt32 X item name ui = (Status_failure ''Invalid data type returned.'', ui))
     \<and> (vt v \<noteq> VT_I4 \<longrightarrow>
        GetLong X item name l = (Status_failure ''Invalid data type returned.'', l))
     \<and> (vt v \<noteq> VT_UI4 \<longrightarrow>
        GetUnsignedLong X item name ul = (Status_failure ''Invalid data type returned.'', ul))
     \<and> (vt v \<noteq> VT_I8 \<longrightarrow>
        GetLongLong X item name ll = (Status_failure ''Invalid data type returned.'', ll))
     \<and> (vt v \<noteq> VT_UI8 \<longrightarrow>
        GetUnsignedLongLong X item name ull
          = (Status_failure ''Invalid data type returned.'', ull))
     \<and> (vt v \<noteq> VT_BSTR \<longrightarrow>
        GetString X item name s = (Status_failure ''Invalid data type returned.'', ''''))
     \<and> (vt v \<noteq> (VT_BSTR OR VT_ARRAY) \<longrightarrow>
        GetVectorOfStrings X item name vs
          = Inr (Status_failure ''Invalid data type returned.'', vs))
     \<and> (vt v \<noteq> VT_BSTR \<longrightarrow>
        GetDateTime X item name is_local ft
          = (Status_failure ''Expected VT_BSTR, got something else.'', ft))"
  using assms
  by (simp add: GetBool_def GetUChar_def GetUnsignedShort_def GetUnsignedInt32_def GetLong_def
      GetUnsignedLong_def GetLongLong_def GetUnsignedLongLong_def GetString_def
      GetVectorOfStrings_def GetDateTime_def)

theorem getter_tag_mismatch_witness:
  "Get (result_m (single_field_item (scalar_field 0 5)))
       (c_str (stringToWstring example_externals ''Name'')) = (S_OK, scalar_field 0 5)
   \<and> vt (scalar_field 0 5) \<notin> {VT_BOOL, VT_UI1, VT_UI2, VT_UINT, VT_I4, VT_UI4, VT_I8, VT_UI8,
        VT_BSTR, VT_BSTR OR VT_ARRAY}
   \<and> GetBool example_externals (single_field_item (scalar_field 0 5)) ''Name'' True
       = (Status_failure ''Invalid data type returned.'', True)
   \<and> GetUChar example_externals (single_field_item (scalar_field 0 5)) ''Name'' 1
       = (Status_failure ''Invalid data type returned.'', 1)
   \<and> GetUnsignedShort example_externals (single_field_item (scalar_field 0 5)) ''Name'' 2
       = (Status_failure ''Invalid data type returned.'', 2)
   \<and> GetUnsignedInt32 example_externals (single_field_item (scalar_field 0 5)) ''Name'' 3
       = (Status_failure ''Invalid data type returned.'', 3)
   \<and> GetLong example_externals (single_field_item (scalar_field 0 5)) ''Name'' 4
       = (Status_failure ''Invalid data type returned.'', 4)
   \<and> GetUnsignedLong example_externals (single_field_item (scalar_field 0 5)) ''Name'' 6
       = (Status_failure ''Invalid data type returned.'', 6)
   \<and> GetLongLong example_externals (single_field_item (scalar_field 0 5)) ''Name'' 7
       = (Status_failure ''Invalid data type returned.'', 7)
   \<and> GetUnsignedLongLong example_externals (single_field_item (scalar_field 0 5)) ''Name'' 8
       = (Status_failure ''Invalid data type returned.'', 8)
   \<and> GetString example_externals (single_field_item (scalar_field 0 5)) ''Name'' ''old''
       = (Status_failure ''Invalid data type returned.'', '''')
   \<and> GetVectorOfStrings example_externals (single_field_item (scalar_field 0 5)) ''Name''
        [''old'']
       = Inr (Status_failure ''Invalid data type returned.'', [''old''])
   \<and> GetDateTime example_externals (single_field_item (scalar_field 0 5)) ''Name'' True
        \<lparr>dwLowDateTime = 1, dwHighDateTime = 2\<rparr>
       = (Status_failure ''Expected VT_BSTR, got something else.'',
          \<lparr>dwLowDateTime = 1, dwHighDateTime = 2\<rparr>)"
proof -
  have g: "Get (result_m (single_field_item (scalar_field 0 5)))
       (c_str (stringToWstring example_externals ''Name'')) = (S_OK, scalar_field 0 5)"
    by (simp add: single_field_item_def)
  have t: "vt (scalar_field 0 5) \<notin> {VT_BOOL, VT_UI1, VT_UI2, VT_UINT, VT_I4, VT_UI4, VT_I8,
        VT_UI8, VT_BSTR, VT_BSTR OR VT_ARRAY}"
    by (simp add: scalar_field_def vt_defs)
  show ?thesis
    using g t
      getter_tag_mismatch [OF g, of True 1 2 3 4 6 7 8 "''old''" "[''old'']" True
        "\<lparr>dwLowDateTime = 1, dwHighDateTime = 2\<rparr>"]
    by simp
qed
text \<open>
  C5. \<open>Put<unsigned int>\<close> tags its value \<open>VT_UI4\<close> and stores it in the member \<open>ulVal\<close>.
  \<open>VT_UI4\<close> is not the tag \<open>VT_UINT\<close> that \<open>GetUnsignedInt32\<close> accepts: on every field
  tagged \<open>VT_UI4\<close>, \<open>GetUnsignedInt32\<close> returns the type-mismatch failure and leaves its
  output alone, while \<open>GetUnsignedLong\<close> succeeds and delivers the stored 32-bit value.
  The container of the arguments may iterate in any order: \<open>arrange\<close> only rearranges.
\<close>

theorem Put_unsigned_int_tag_not_accepted_by_GetUnsignedInt32:
  assumes "\<And>ys. mset (arrange ys) = mset ys"
    and "GetArguments (snd (Put_unsigned_int arrange junk aname val WmiMethodArgs_new))
           = [(aname, var)]"
    and "Get (result_m item) (c_str (stringToWstring X name)) = (S_OK, v)"
    and "vt v = VT_UI4"
  shows "vt var = VT_UI4 \<and> ulVal var = val \<and> VT_UI4 \<noteq> VT_UINT
     \<and> GetUnsignedInt32 X item name r = (Status_failure ''Invalid data type returned.'', r)
     \<and> GetUnsignedLong X item name r' = (Status_success, ulVal v)"
proof -
  have "arrange [(aname, set_ulVal val (junk\<lparr>vt := VT_UI4\<rparr>))]
          = [(aname, set_ulVal val (junk\<lparr>vt := VT_UI4\<rparr>))]"
    using assms(1) [of "[(aname, set_ulVal val (junk\<lparr>vt := VT_UI4\<rparr>))]"]
    by (simp add: mset_single_iff_right)
  then have "var = set_ulVal val (junk\<lparr>vt := VT_UI4\<rparr>)"
    using assms(2)
    by (simp add: Put_unsigned_int_def GetArguments_def WmiMethodArgs_new_def
        arguments_insert_def Let_def)
  then have "vt var = VT_UI4" and "ulVal var = val"
    by (simp_all add: vt_set_ulVal ulVal_set_ulVal)
  moreover have "VT_UI4 \<noteq> VT_UINT"
    by (simp add: vt_defs)
  moreover have "GetUnsignedInt32 X item name r = (Status_failure ''Invalid data type returned.'', r)"
    using assms(3,4) by (simp add: GetUnsignedInt32_def vt_defs)
  moreover have "GetUnsignedLong X item name r' = (Status_success, ulVal v)"
    using assms(3,4) by (simp add: GetUnsignedLong_def lVal_def ulVal_def)
  ultimately show ?thesis by simp
qed

theorem Put_unsigned_int_tag_witness:
  "(\<forall>ys. mset (example_arrange ys) = mset ys)
   \<and> GetArguments (snd (Put_unsigned_int example_arrange (scalar_field 0 0xFFFFFFFFFFFFFFFF)
        ''n1'' 5 WmiMethodArgs_new))
     = [(''n1'', scalar_field VT_UI4 0xFFFFFFFF00000005)]
   \<and> Get (result_m (single_field_item (scalar_field VT_UI4 0xFFFFFFFF00000005)))
        (c_str (stringToWstring example_externals ''n1''))
       = (S_OK, scalar_field VT_UI4 0xFFFFFFFF00000005)
   \<and> vt (scalar_field VT_UI4 0xFFFFFFFF00000005) = VT_UI4
   \<and> GetUnsignedInt32 example_externals
        (single_field_item (scalar_field VT_UI4 0xFFFFFFFF00000005)) ''n1'' 9
       = (Status_failure ''Invalid data type returned.'', 9)
   \<and> GetUnsignedLong example_externals
        (single_field_item (scalar_field VT_UI4 0xFFFFFFFF00000005)) ''n1'' 9
       = (Status_success, 5)"
proof -
  have a: "\<And>ys. mset (example_arrange ys) = mset ys"
    by (simp add: example_arrange_def)
  have p: "GetArguments (snd (Put_unsigned_int example_arrange (scalar_field 0 0xFFFFFFFFFFFFFFFF)
              ''n1'' 5 WmiMethodArgs_new))
      = [(''n1'', scalar_field VT_UI4 0xFFFFFFFF00000005)]"
    by (simp add: Put_unsigned_int_def GetArguments_def WmiMethodArgs_new_def
        arguments_insert_def set_ulVal_def scalar_field_def Let_def mask_eq_exp_minus_1
        example_arrange_def)
  have g: "Get (result_m (single_field_item (scalar_field VT_UI4 0xFFFFFFFF00000005)))
        (c_str (stringToWstring example_externals ''n1''))
       = (S_OK, scalar_field VT_UI4 0xFFFFFFFF00000005)"
    by (simp add: single_field_item_def)
  have t: "vt (scalar_field VT_UI4 0xFFFFFFFF00000005) = VT_UI4"
    by (simp add: scalar_field_def)
  have u: "ulVal (scalar_field VT_UI4 0xFFFFFFFF00000005) = 5"
    by (simp add: scalar_field_def ulVal_def)
  show ?thesis
    using a p g t u Put_unsigned_int_tag_not_accepted_by_GetUnsignedInt32 [OF a p g t, of 9 9]
    by simp
qed

text \<open>
  C6. For a field holding a string array with lower bound \<open>lbound\<close> and \<open>n\<close> elements,
  \<open>GetVectorOfStrings\<close> succeeds and appends exactly \<open>n\<close> strings in array order: the
  \<open>i\<close>-th of them is the decoded element at array index \<open>lbound + i\<close>. With an empty output
  vector these are the output positions \<open>0 .. n - 1\<close>. The element count is one that the
  32-bit \<open>long count\<close> of the source can hold.
\<close>

theorem GetVectorOfStrings_array_order:
  assumes "Get (result_m item) (c_str (stringToWstring X name)) = (S_OK, v)"
    and "vt v = (VT_BSTR OR VT_ARRAY)"
    and "n = length (pvData (parray v))"
    and "n < 2 ^ 31"
  shows "GetVectorOfStrings X item name ret =
           Inr (Status_success,
                ret @ map (\<lambda>i. bstrToString X
                            (SafeArrayElement (parray v) (sint (lLbound (parray v)) + int i)))
                        [0..<n])"
proof -
  have "map (\<lambda>i. bstrToString X
                (SafeArrayElement (parray v) (sint (lLbound (parray v)) + int i))) [0..<n]
          = map (bstrToString X) (pvData (parray v))"
    using assms(3) by (intro nth_equalityI) (simp_all add: SafeArrayElement_def)
  then show ?thesis
    using GetVectorOfStrings_success [OF assms(1,2)] assms(3,4) by simp
qed

theorem GetVectorOfStrings_array_order_witness:
  "Get (result_m (single_field_item (string_array_field example_strings)))
       (c_str (stringToWstring example_externals ''Names''))
     = (S_OK, string_array_field example_strings)
   \<and> vt (string_array_field example_strings) = (VT_BSTR OR VT_ARRAY)
   \<and> (3::nat) = length (pvData (parray (string_array_field example_strings)))
   \<and> (3::nat) < 2 ^ 31
   \<and> GetVectorOfStrings example_externals
        (single_field_item (string_array_field example_strings)) ''Names'' []
       = Inr (Status_success,
              [bstrToString example_externals (SafeArrayElement example_strings 5),
               bstrToString example_externals (SafeArrayElement example_strings 6),
               bstrToString example_externals (SafeArrayElement example_strings 7)])
   \<and> SafeArrayElement example_strings 5 = Some \<lparr>addr = 1, chars = [97, 98]\<rparr>
   \<and> SafeArrayElement example_strings 6 = None
   \<and> SafeArrayElement example_strings 7 = Some \<lparr>addr = 2, chars = [99]\<rparr>"
proof -
  have g: "Get (result_m (single_field_item (string_array_field example_strings)))
       (c_str (stringToWstring example_externals ''Names''))
     = (S_OK, string_array_field example_strings)"
    by (simp add: single_field_item_def)
  have t: "vt (string_array_field example_strings) = (VT_BSTR OR VT_ARRAY)"
    by (simp add: string_array_field_def)
  have n: "(3::nat) = length (pvData (parray (string_array_field example_strings)))"
    by (simp add: string_array_field_def example_strings_def)
  have b: "(3::nat) < 2 ^ 31"
    by simp
  have l: "sint (lLbound example_strings) = 5"
    by (simp add: example_strings_def)
  have u: "[0..<3] = [0, 1, 2]"
    by (simp add: upt_rec)
  have e: "SafeArrayElement example_strings 5 = Some \<lparr>addr = 1, chars = [97, 98]\<rparr>"
    "SafeArrayElement example_strings 6 = None"
    "SafeArrayElement example_strings 7 = Some \<lparr>addr = 2, chars = [99]\<rparr>"
    by (simp_all add: SafeArrayElement_def example_strings_def)
  have p: "parray (string_array_field example_strings) = example_strings"
    by (simp add: string_array_field_def)
  show ?thesis
    using g t n b e GetVectorOfStrings_array_order [OF g t n b, of "[]"]
    by (simp add: l u p)
qed



section \<open>Claims about method arguments\<close>

text \<open>
  C7. The claim: the collection built by \<open>Put("n1", 5u)\<close> followed by \<open>Put("n2", "hello")\<close>
  exposes exactly two entries, and for every sequence of \<open>Put\<close> calls with distinct names
  the exposed entries preserve insertion order. \<open>Put\<close> hands each pair to the container's
  \<open>insert\<close> without a position, and the container iterates in its own order. In a
  container that only rearranges its pairs and does not keep them in insertion order, the
  two calls of the example are exposed with \<open>n2\<close> first.
\<close>

theorem Put_sequence_not_in_insertion_order:
  "(\<forall>ys. mset (example_arrange ys) = mset ys)
   \<and> run_puts example_externals example_arrange example_puts (WmiMethodArgs_new, example_world)
       = ([Status_success, Status_success], example_args, example_world\<lparr>room := 3, fresh := 2\<rparr>)
   \<and> map put_name example_puts = [''n1'', ''n2'']
   \<and> map fst (GetArguments example_args) = [''n2'', ''n1'']"
  by (simp add: example_puts_def example_world_def example_args_def Put_unsigned_int_def
      Put_string_def SysAllocString_def WmiMethodArgs_new_def arguments_insert_def
      set_ulVal_def scalar_field_def example_arrange_def GetArguments_def Let_def)

text \<open>
  C7, amended. For every sequence of \<open>Put\<close> calls with pairwise different names on a new
  collection, \<open>GetArguments\<close> exposes exactly the entries of the calls that returned
  success, one entry for each such call, with the name, tag and value of that call; a call
  that fails adds nothing. When all calls return success there are as many entries as calls
  and their names are the names of the calls: two entries, \<open>n1\<close> and \<open>n2\<close>, for
  \<open>Put("n1", 5u)\<close> followed by \<open>Put("n2", "hello")\<close>. The entries are exposed in the
  container's iteration order, whatever that is.
\<close>

theorem Put_sequence_exposes_the_entries_put:
  assumes "\<And>ys. mset (arrange ys) = mset ys"
    and "run_puts X arrange cs (WmiMethodArgs_new, w) = (sts, a, w')"
    and "distinct (map put_name cs)"
  shows "length sts = length cs
     \<and> (\<exists>new. mset (GetArguments a) = mset new
            \<and> list_all2 (entry_matches X) (successful_puts cs sts) new)
     \<and> (list_all ok sts \<longrightarrow>
           length (GetArguments a) = length cs
           \<and> mset (map fst (GetArguments a)) = mset (map put_name cs))"
proof -
  from assms(3) have "distinct (map fst (arguments WmiMethodArgs_new) @ map put_name cs)"
    by (simp add: WmiMethodArgs_new_def)
  from run_puts_entries [OF assms(1,2) this]
  obtain new where len: "length sts = length cs"
    and new: "mset (GetArguments a) = mset new"
      "list_all2 (entry_matches X) (successful_puts cs sts) new"
    by (auto simp: WmiMethodArgs_new_def GetArguments_def)
  have "length (GetArguments a) = length cs
      \<and> mset (map fst (GetArguments a)) = mset (map put_name cs)" if "list_all ok sts"
  proof -
    from successful_puts_all [OF len that] new(2) have m: "list_all2 (entry_matches X) cs new"
      by simp
    have "length (GetArguments a) = length new"
      using new(1) by (rule mset_eq_length)
    moreover have "length new = length cs"
      using m by (simp add: list_all2_lengthD)
    moreover have "mset (map fst (GetArguments a)) = mset (map fst new)"
      using new(1) by (metis mset_map)
    ultimately show ?thesis
      using entry_matches_names [OF m] by simp
  qed
  with len new show ?thesis
    by blast
qed

theorem Put_sequence_example_witness:
  "(\<forall>ys. mset (example_arrange ys) = mset ys)
   \<and> run_puts example_externals example_arrange example_puts (WmiMethodArgs_new, example_world)
       = ([Status_success, Status_success], example_args, example_world\<lparr>room := 3, fresh := 2\<rparr>)
   \<and> distinct (map put_name example_puts)
   \<and> list_all ok [Status_success, Status_success]
   \<and> length (GetArguments example_args) = 2
   \<and> mset (map fst (GetArguments example_args)) = {#''n1'', ''n2''#}"
proof -
  have p: "\<And>ys. mset (example_arrange ys) = mset ys"
    by (simp add: example_arrange_def)
  have r: "run_puts example_externals example_arrange example_puts
         (WmiMethodArgs_new, example_world)
       = ([Status_success, Status_success], example_args, example_world\<lparr>room := 3, fresh := 2\<rparr>)"
    by (simp add: example_puts_def example_world_def example_args_def Put_unsigned_int_def
        Put_string_def SysAllocString_def WmiMethodArgs_new_def arguments_insert_def
        set_ulVal_def scalar_field_def example_arrange_def Let_def)
  have d: "distinct (map put_name example_puts)"
    by (simp add: example_puts_def)
  have l: "length example_puts = 2" "map put_name example_puts = [''n1'', ''n2'']"
    by (simp_all add: example_puts_def)
  show ?thesis
    using p r d Put_sequence_exposes_the_entries_put [OF p r d]
    by (simp add: l)
qed

text \<open>
  C8. Move construction leaves the source with no entries and gives the destination the
  source's entries. Destroying the emptied source leaves the allocator as it was: nothing
  is released. Destroying the destination passes to \<open>SysFreeString\<close> the string of each
  member tagged \<open>VT_BSTR\<close>, one call per member and nothing else; for a collection built by
  \<open>Put\<close> calls these strings are pairwise different, so each is released exactly once.
  This holds in whatever order the container iterates (\<open>arrange\<close> only rearranges).
\<close>

theorem move_then_destroy_releases_once:
  assumes "WmiMethodArgs_move src = (dst, src')"
  shows "GetArguments src' = []
     \<and> GetArguments dst = GetArguments src
     \<and> WmiMethodArgs_dtor src' w = w
     \<and> frees (WmiMethodArgs_dtor dst w) = frees w @ bstr_members (GetArguments src)
     \<and> ((\<forall>ys. mset (arrange ys) = mset ys)
          \<and> run_puts X arrange cs (WmiMethodArgs_new, w0) = (sts, src, w1)
          \<longrightarrow> distinct (bstr_members (GetArguments src)))"
proof -
  from assms have s: "arguments src' = []" and d: "arguments dst = arguments src"
    by (auto simp: WmiMethodArgs_move_def WmiMethodArgs_new_def Let_def)
  have "owns_distinct WmiMethodArgs_new w0"
    by (simp add: owns_distinct_def WmiMethodArgs_new_def)
  then have "(\<forall>ys. mset (arrange ys) = mset ys)
          \<and> run_puts X arrange cs (WmiMethodArgs_new, w0) = (sts, src, w1)
          \<longrightarrow> distinct (bstr_members (GetArguments src))"
    using run_puts_owns_distinct [of arrange X cs WmiMethodArgs_new w0 sts src w1]
    by (simp add: owns_distinct_def GetArguments_def)
  with s d show ?thesis
    by (simp add: GetArguments_def WmiMethodArgs_dtor_def dtor_loop_frees)
qed

theorem move_then_destroy_witness:
  "WmiMethodArgs_move example_args = (example_args, WmiMethodArgs_new)
   \<and> (\<forall>ys. mset (example_arrange ys) = mset ys)
   \<and> run_puts example_externals example_arrange example_puts (WmiMethodArgs_new, example_world)
       = ([Status_success, Status_success], example_args, example_world\<lparr>room := 3, fresh := 2\<rparr>)
   \<and> GetArguments WmiMethodArgs_new = []
   \<and> WmiMethodArgs_dtor WmiMethodArgs_new example_world = example_world
   \<and> bstr_members (GetArguments example_args) = [1]
   \<and> frees (WmiMethodArgs_dtor example_args example_world) = [1]
   \<and> distinct (bstr_members (GetArguments example_args))"
proof -
  have m: "WmiMethodArgs_move example_args = (example_args, WmiMethodArgs_new)"
    by (simp add: WmiMethodArgs_move_def WmiMethodArgs_new_def example_args_def Let_def)
  have a: "\<forall>ys. mset (example_arrange ys) = mset ys"
    by (simp add: example_arrange_def)
  have r: "run_puts example_externals example_arrange example_puts
         (WmiMethodArgs_new, example_world)
       = ([Status_success, Status_success], example_args, example_world\<lparr>room := 3, fresh := 2\<rparr>)"
    by (simp add: example_puts_def example_world_def example_args_def Put_unsigned_int_def
        Put_string_def SysAllocString_def WmiMethodArgs_new_def arguments_insert_def
        set_ulVal_def scalar_field_def example_arrange_def Let_def)
  have b: "bstr_members (GetArguments example_args) = [1]"
    by (simp add: GetArguments_def example_args_def scalar_field_def vt_defs)
  have f: "frees example_world = []"
    by (simp add: example_world_def)
  show ?thesis
    using m a r b f
      move_then_destroy_releases_once [OF m, of example_world example_arrange example_externals
        example_puts example_world "[Status_success, Status_success]"
        "example_world\<lparr>room := 3, fresh := 2\<rparr>"]
    by simp
qed

section \<open>Claims about requests\<close>

lemma WmiRequest_ctor_eq:
  assumes "CoCreateInstance_WbemLocator com = (hr_l, locator)"
    and "ConnectServer locator nspace = (hr_c, services)"
    and "ExecQuery services (c_str (stringToWstring X query)) = (hr_q, e)"
    and "w2 = remote_call Call_CoCreateInstance (remote_call Call_CoInitializeSecurity w)"
    and "w3 = remote_call (Call_ConnectServer nspace) w2"
    and "w4 = remote_call (Call_ExecQuery (c_str (stringToWstring X query))) w3"
    and "d = drain WBEM_S_NO_ERROR e [] w4"
  shows "WmiRequest_ctor X com status0 query nspace w =
     (if hr_l \<noteq> S_OK
      then (\<lparr>status_m = status0, results_m = [], locator_m = None, enum_m = None,
             services_m = None\<rparr>, w2)
      else if hr_c \<noteq> S_OK
      then (\<lparr>status_m = status0, results_m = [], locator_m = Some locator, enum_m = None,
             services_m = None\<rparr>, w3)
      else if hr_q \<noteq> S_OK
      then (\<lparr>status_m = status0, results_m = [], locator_m = Some locator, enum_m = None,
             services_m = Some services\<rparr>, w4)
      else (\<lparr>status_m = Status_code 0, results_m = fst (snd d), locator_m = Some locator,
             enum_m = Some (fst d), services_m = Some services\<rparr>, snd (snd d)))"
  by (simp add: WmiRequest_ctor_def assms Let_def split_beta)

lemma WmiRequest_ctor_outcome:
  assumes "CoCreateInstance_WbemLocator com = (hr_l, locator)"
    and "ConnectServer locator nspace = (hr_c, services)"
    and "ExecQuery services (c_str (stringToWstring X query)) = (hr_q, e)"
    and "WmiRequest_ctor X com status0 query nspace w = (r, w')"
  shows "status_m r = (if hr_l = S_OK \<and> hr_c = S_OK \<and> hr_q = S_OK then Status_code 0 else status0)"
    and "results_m r = (if hr_l = S_OK \<and> hr_c = S_OK \<and> hr_q = S_OK
                        then map (\<lambda>obj. \<lparr>result_m = obj\<rparr>) (collected (pending e)) else [])"
    and "calls w' = calls w @ [Call_CoInitializeSecurity, Call_CoCreateInstance]
          @ (if hr_l \<noteq> S_OK then []
             else Call_ConnectServer nspace
               # (if hr_c \<noteq> S_OK then []
                  else Call_ExecQuery (c_str (stringToWstring X query))
                    # (if hr_q \<noteq> S_OK then []
                       else replicate (next_calls (pending e)) Call_Next)))"
    and "locator_m r = (if hr_l = S_OK then Some locator else None)"
    and "services_m r = (if hr_l = S_OK \<and> hr_c = S_OK then Some services else None)"
    and "(enum_m r = None) = (\<not> (hr_l = S_OK \<and> hr_c = S_OK \<and> hr_q = S_OK))"
proof -
  define w2 where "w2 = remote_call Call_CoCreateInstance (remote_call Call_CoInitializeSecurity w)"
  define w3 where "w3 = remote_call (Call_ConnectServer nspace) w2"
  define w4 where "w4 = remote_call (Call_ExecQuery (c_str (stringToWstring X query))) w3"
  define d where "d = drain WBEM_S_NO_ERROR e [] w4"
  note eq = WmiRequest_ctor_eq [OF assms(1-3) w2_def w3_def w4_def d_def, of status0]
  have c2: "calls w2 = calls w @ [Call_CoInitializeSecurity, Call_CoCreateInstance]"
    by (simp add: w2_def calls_remote_call)
  have c3: "calls w3 = calls w2 @ [Call_ConnectServer nspace]"
    by (simp add: w3_def calls_remote_call)
  have c4: "calls w4 = calls w3 @ [Call_ExecQuery (c_str (stringToWstring X query))]"
    by (simp add: w4_def calls_remote_call)
  have dr: "fst (snd d) = map (\<lambda>obj. \<lparr>result_m = obj\<rparr>) (collected (pending e))"
    and dc: "calls (snd (snd d)) = calls w4 @ replicate (next_calls (pending e)) Call_Next"
    using drain_eq [of e "[]" w4] by (simp_all add: d_def)
  consider (l) "hr_l \<noteq> S_OK" | (c) "hr_l = S_OK" "hr_c \<noteq> S_OK"
    | (q) "hr_l = S_OK" "hr_c = S_OK" "hr_q \<noteq> S_OK"
    | (ok) "hr_l = S_OK" "hr_c = S_OK" "hr_q = S_OK"
    by blast
  then have "(status_m r = (if hr_l = S_OK \<and> hr_c = S_OK \<and> hr_q = S_OK then Status_code 0 else status0))
    \<and> (results_m r = (if hr_l = S_OK \<and> hr_c = S_OK \<and> hr_q = S_OK
                        then map (\<lambda>obj. \<lparr>result_m = obj\<rparr>) (collected (pending e)) else []))
    \<and> (calls w' = calls w @ [Call_CoInitializeSecurity, Call_CoCreateInstance]
          @ (if hr_l \<noteq> S_OK then []
             else Call_ConnectServer nspace
               # (if hr_c \<noteq> S_OK then []
                  else Call_ExecQuery (c_str (stringToWstring X query))
                    # (if hr_q \<noteq> S_OK then []
                       else replicate (next_calls (pending e)) Call_Next))))
    \<and> (locator_m r = (if hr_l = S_OK then Some locator else None))
    \<and> (services_m r = (if hr_l = S_OK \<and> hr_c = S_OK then Some services else None))
    \<and> ((enum_m r = None) = (\<not> (hr_l = S_OK \<and> hr_c = S_OK \<and> hr_q = S_OK)))"
  proof cases
    case l
    with eq assms(4) have "r = \<lparr>status_m = status0, results_m = [], locator_m = None,
        enum_m = None, services_m = None\<rparr>" "w' = w2"
      by simp_all
    with l c2 show ?thesis by simp
  next
    case c
    with eq assms(4) have "r = \<lparr>status_m = status0, results_m = [], locator_m = Some locator,
        enum_m = None, services_m = None\<rparr>" "w' = w3"
      by simp_all
    with c c2 c3 show ?thesis by simp
  next
    case q
    with eq assms(4) have "r = \<lparr>status_m = status0, results_m = [], locator_m = Some locator,
        enum_m = None, services_m = Some services\<rparr>" "w' = w4"
      by simp_all
    with q c2 c3 c4 show ?thesis by simp
  next
    case ok
    with eq assms(4) have "r = \<lparr>status_m = Status_code 0, results_m = fst (snd d),
        locator_m = Some locator, enum_m = Some (fst d), services_m = Some services\<rparr>"
      "w' = snd (snd d)"
      by simp_all
    with ok c2 c3 c4 dr dc show ?thesis by simp
  qed
  then show "status_m r = (if hr_l = S_OK \<and> hr_c = S_OK \<and> hr_q = S_OK then Status_code 0 else status0)"
    and "results_m r = (if hr_l = S_OK \<and> hr_c = S_OK \<and> hr_q = S_OK
                        then map (\<lambda>obj. \<lparr>result_m = obj\<rparr>) (collected (pending e)) else [])"
    and "calls w' = calls w @ [Call_CoInitializeSecurity, Call_CoCreateInstance]
          @ (if hr_l \<noteq> S_OK then []
             else Call_ConnectServer nspace
               # (if hr_c \<noteq> S_OK then []
                  else Call_ExecQuery (c_str (stringToWstring X query))
                    # (if hr_q \<noteq> S_OK then []
                       else replicate (next_calls (pending e)) Call_Next)))"
    and "locator_m r = (if hr_l = S_OK then Some locator else None)"
    and "services_m r = (if hr_l = S_OK \<and> hr_c = S_OK then Some services else None)"
    and "(enum_m r = None) = (\<not> (hr_l = S_OK \<and> hr_c = S_OK \<and> hr_q = S_OK))"
    by blast+
qed




text \<open>
  C4. The claim: a failing transition stops the chain, and in particular a failing security
  initialisation means the locator is never created. The constructor never reads the
  result of \<open>CoInitializeSecurity\<close>: here it fails with \<open>RPC_E_TOO_LATE\<close>, and the locator
  is created, the service bound, the query executed and the enumerator drained.
\<close>

theorem security_failure_does_not_stop_chain:
  "FAILED (CoInitializeSecurity (example_com RPC_E_TOO_LATE (example_services [])))
   \<and> calls (snd (WmiRequest_ctor example_externals
        (example_com RPC_E_TOO_LATE (example_services []))
        (Status_failure ''not constructed'') ''SELECT'' [82] example_world))
       = [Call_CoInitializeSecurity, Call_CoCreateInstance, Call_ConnectServer [82],
          Call_ExecQuery (c_str (stringToWstring example_externals ''SELECT'')), Call_Next]
   \<and> locator_m (fst (WmiRequest_ctor example_externals
        (example_com RPC_E_TOO_LATE (example_services []))
        (Status_failure ''not constructed'') ''SELECT'' [82] example_world))
       = Some \<lparr>ConnectServer = (\<lambda>n. (S_OK, example_services []))\<rparr>"
proof -
  let ?com = "example_com RPC_E_TOO_LATE (example_services [])"
  let ?ctor = "WmiRequest_ctor example_externals ?com
        (Status_failure ''not constructed'') ''SELECT'' [82] example_world"
  have c: "CoCreateInstance_WbemLocator ?com
      = (S_OK, \<lparr>ConnectServer = (\<lambda>n. (S_OK, example_services []))\<rparr>)"
    by (simp add: example_com_def)
  have s: "ConnectServer \<lparr>ConnectServer = (\<lambda>n. (S_OK, example_services []))\<rparr> [82]
      = (S_OK, example_services [])"
    by simp
  have q: "ExecQuery (example_services []) (c_str (stringToWstring example_externals ''SELECT''))
      = (S_OK, \<lparr>pending = []\<rparr>)"
    by (simp add: example_services_def)
  have r: "?ctor = (fst ?ctor, snd ?ctor)"
    by simp
  have "FAILED (CoInitializeSecurity ?com)"
    by (simp add: example_com_def FAILED_RPC_E_TOO_LATE)
  moreover have "calls (snd ?ctor)
       = [Call_CoInitializeSecurity, Call_CoCreateInstance, Call_ConnectServer [82],
          Call_ExecQuery (c_str (stringToWstring example_externals ''SELECT'')), Call_Next]"
    using WmiRequest_ctor_outcome(3) [OF c s q r] by (simp add: example_world_def)
  moreover have "locator_m (fst ?ctor)
       = Some \<lparr>ConnectServer = (\<lambda>n. (S_OK, example_services []))\<rparr>"
    using WmiRequest_ctor_outcome(4) [OF c s q r] by simp
  ultimately show ?thesis
    by simp
qed

text \<open>
  C4, amended. The constructor always calls \<open>CoInitializeSecurity\<close> and then creates the
  locator, whatever the security initialisation returned. From there the chain is linear:
  when locator creation, service binding or query execution returns anything but \<open>S_OK\<close>,
  no later call is made and no later resource is held; the enumerator is drained only
  after all three returned \<open>S_OK\<close>.
\<close>

theorem WmiRequest_chain_is_linear_after_security:
  assumes "CoCreateInstance_WbemLocator com = (hr_l, locator)"
    and "ConnectServer locator nspace = (hr_c, services)"
    and "ExecQuery services (c_str (stringToWstring X query)) = (hr_q, e)"
    and "WmiRequest_ctor X com status0 query nspace w = (r, w')"
  shows "calls w' = calls w @ [Call_CoInitializeSecurity, Call_CoCreateInstance]
          @ (if hr_l \<noteq> S_OK then []
             else Call_ConnectServer nspace
               # (if hr_c \<noteq> S_OK then []
                  else Call_ExecQuery (c_str (stringToWstring X query))
                    # (if hr_q \<noteq> S_OK then []
                       else replicate (next_calls (pending e)) Call_Next)))
     \<and> locator_m r = (if hr_l = S_OK then Some locator else None)
     \<and> services_m r = (if hr_l = S_OK \<and> hr_c = S_OK then Some services else None)
     \<and> (enum_m r = None) = (\<not> (hr_l = S_OK \<and> hr_c = S_OK \<and> hr_q = S_OK))"
  using WmiRequest_ctor_outcome(3-6) [OF assms] by simp

theorem WmiRequest_chain_witness:
  "CoCreateInstance_WbemLocator (example_com S_OK rejecting_services)
     = (S_OK, \<lparr>ConnectServer = (\<lambda>n. (S_OK, rejecting_services))\<rparr>)
   \<and> ConnectServer \<lparr>ConnectServer = (\<lambda>n. (S_OK, rejecting_services))\<rparr> [82]
     = (S_OK, rejecting_services)
   \<and> ExecQuery rejecting_services (c_str (stringToWstring example_externals ''SELECT''))
     = (WBEM_E_FAILED, \<lparr>pending = []\<rparr>)
   \<and> WBEM_E_FAILED \<noteq> S_OK
   \<and> calls (snd (WmiRequest_ctor example_externals (example_com S_OK rejecting_services)
        (Status_failure ''not constructed'') ''SELECT'' [82] example_world))
       = [Call_CoInitializeSecurity, Call_CoCreateInstance, Call_ConnectServer [82],
          Call_ExecQuery (c_str (stringToWstring example_externals ''SELECT''))]
   \<and> services_m (fst (WmiRequest_ctor example_externals (example_com S_OK rejecting_services)
        (Status_failure ''not constructed'') ''SELECT'' [82] example_world))
       = Some rejecting_services
   \<and> enum_m (fst (WmiRequest_ctor example_externals (example_com S_OK rejecting_services)
        (Status_failure ''not constructed'') ''SELECT'' [82] example_world))
       = None"
proof -
  let ?ctor = "WmiRequest_ctor example_externals (example_com S_OK rejecting_services)
        (Status_failure ''not constructed'') ''SELECT'' [82] example_world"
  have c: "CoCreateInstance_WbemLocator (example_com S_OK rejecting_services)
     = (S_OK, \<lparr>ConnectServer = (\<lambda>n. (S_OK, rejecting_services))\<rparr>)"
    by (simp add: example_com_def)
  have s: "ConnectServer \<lparr>ConnectServer = (\<lambda>n. (S_OK, rejecting_services))\<rparr> [82]
     = (S_OK, rejecting_services)"
    by simp
  have q: "ExecQuery rejecting_services (c_str (stringToWstring example_externals ''SELECT''))
     = (WBEM_E_FAILED, \<lparr>pending = []\<rparr>)"
    by (simp add: rejecting_services_def)
  have r: "?ctor = (fst ?ctor, snd ?ctor)"
    by simp
  have n: "WBEM_E_FAILED \<noteq> S_OK"
    by (simp add: WBEM_E_FAILED_def S_OK_def)
  have w: "calls example_world = []"
    by (simp add: example_world_def)
  show ?thesis
    using c s q n w WmiRequest_chain_is_linear_after_security [OF c s q r]
    by simp
qed

text \<open>
  C9. \<open>ExecMethod\<close> on a connected request, where the class name is resolved, the class
  definition is fetched and \<open>GetMethod\<close> succeeds leaving the in-parameter definition null:
  the call returns a status (no fault) and makes no \<open>SpawnInstance\<close> and no \<open>Put\<close> call
  whatever the method arguments are. When the two strings for the invocation are allocated
  and the remote \<open>ExecMethod\<close>, invoked with a null argument instance, does not fail, the
  call returns success and the output item wraps the returned output parameters.
\<close>

theorem ExecMethod_without_in_parameters:
  assumes "services_m this = Some services"
    and "WbemClassObjectPropToBSTR X object ''__CLASS'' w = (Some class_name, w1)"
    and "GetObject services (chars class_name) = (hr1, class_obj)"
    and "\<not> FAILED hr1"
    and "GetMethod class_obj (c_str (stringToWstring X method)) = (hr2, None)"
    and "\<not> FAILED hr2"
    and "w2 = remote_call (Call_GetMethod (c_str (stringToWstring X method)))
                (SysFreeString (Some class_name)
                   (remote_call (Call_GetObject (chars class_name)) w1))"
  shows "(\<exists>st out w'.
            WmiRequest_ExecMethod X this object method args out_result w = Inr (st, out, w')
            \<and> filter is_argument_call (calls w') = filter is_argument_call (calls w))
     \<and> (SysAllocString (c_str (stringToWstring X method)) w2 = (Some meth_name, w3)
          \<and> WbemClassObjectPropToBSTR X object ''__PATH'' w3 = (Some obj_path, w4)
          \<and> ExecMethod services (chars obj_path) (chars meth_name) None = (hr3, out_params)
          \<and> \<not> FAILED hr3
        \<longrightarrow> WmiRequest_ExecMethod X this object method args out_result w
              = Inr (Status_success, \<lparr>result_m = out_params\<rparr>,
                     SysFreeString (Some obj_path)
                       (SysFreeString (Some meth_name)
                          (remote_call
                             (Call_ExecMethod (chars obj_path) (chars meth_name) True) w4))))"
proof -
  have no_inst: "ExecMethod_args_inst X None args w2 = (None, None, w2)"
    by (simp add: ExecMethod_args_inst_def)
  have eq: "WmiRequest_ExecMethod X this object method args out_result w
      = Inr (ExecMethod_invoke X services object (stringToWstring X method) None out_result w2)"
    using assms no_inst by (simp add: WmiRequest_ExecMethod_def Let_def)
  have c1: "calls w1 = calls w"
    using calls_WbemClassObjectPropToBSTR [of X object "''__CLASS''" w] assms(2) by simp
  have c2: "filter is_argument_call (calls w2) = filter is_argument_call (calls w)"
    using c1 assms(7) by (simp add: calls_remote_call calls_SysFreeString)
  obtain st out w' where
    inv: "ExecMethod_invoke X services object (stringToWstring X method) None out_result w2
            = (st, out, w')"
    by (cases "ExecMethod_invoke X services object (stringToWstring X method) None out_result w2")
      auto
  have "filter is_argument_call (calls w') = filter is_argument_call (calls w2)"
    using ExecMethod_invoke_no_argument_calls
      [of X services object "stringToWstring X method" None out_result w2] inv
    by simp
  with c2 eq inv have a: "\<exists>st out w'.
            WmiRequest_ExecMethod X this object method args out_result w = Inr (st, out, w')
            \<and> filter is_argument_call (calls w') = filter is_argument_call (calls w)"
    by simp
  have b: "SysAllocString (c_str (stringToWstring X method)) w2 = (Some meth_name, w3)
          \<and> WbemClassObjectPropToBSTR X object ''__PATH'' w3 = (Some obj_path, w4)
          \<and> ExecMethod services (chars obj_path) (chars meth_name) None = (hr3, out_params)
          \<and> \<not> FAILED hr3
        \<longrightarrow> WmiRequest_ExecMethod X this object method args out_result w
              = Inr (Status_success, \<lparr>result_m = out_params\<rparr>,
                     SysFreeString (Some obj_path)
                       (SysFreeString (Some meth_name)
                          (remote_call
                             (Call_ExecMethod (chars obj_path) (chars meth_name) True) w4)))"
    unfolding eq by (simp add: ExecMethod_invoke_def Let_def)
  from a b show ?thesis by blast
qed

theorem ExecMethod_without_in_parameters_witness:
  "services_m connected_request = Some (example_services [])
   \<and> WbemClassObjectPropToBSTR example_externals \<lparr>result_m = example_object\<rparr> ''__CLASS''
        example_world
       = (Some \<lparr>addr = 1, chars = c_str (stringToWstring example_externals
                  (bstrToString example_externals (Some \<lparr>addr = 100, chars = [87]\<rparr>)))\<rparr>,
          example_world\<lparr>room := 3, fresh := 2\<rparr>)
   \<and> GetObject (example_services []) (c_str (stringToWstring example_externals
          (bstrToString example_externals (Some \<lparr>addr = 100, chars = [87]\<rparr>))))
       = (S_OK, \<lparr>GetMethod = (\<lambda>m. (S_OK, None))\<rparr>)
   \<and> \<not> FAILED S_OK
   \<and> GetMethod \<lparr>GetMethod = (\<lambda>m. (S_OK, None))\<rparr>
        (c_str (stringToWstring example_externals ''Terminate''))
       = (S_OK, None)
   \<and> ExecMethod (example_services [])
        (c_str (stringToWstring example_externals
          (bstrToString example_externals (Some \<lparr>addr = 100, chars = [87]\<rparr>))))
        (c_str (stringToWstring example_externals ''Terminate'')) None
       = (S_OK, example_object)
   \<and> (\<exists>w'. WmiRequest_ExecMethod example_externals connected_request
          \<lparr>result_m = example_object\<rparr> ''Terminate'' example_args
          (single_field_item (scalar_field 0 0)) example_world
        = Inr (Status_success, \<lparr>result_m = example_object\<rparr>, w')
        \<and> calls w' =
            [Call_GetObject (c_str (stringToWstring example_externals
               (bstrToString example_externals (Some \<lparr>addr = 100, chars = [87]\<rparr>)))),
             Call_GetMethod (c_str (stringToWstring example_externals ''Terminate'')),
             Call_ExecMethod
               (c_str (stringToWstring example_externals
                 (bstrToString example_externals (Some \<lparr>addr = 100, chars = [87]\<rparr>))))
               (c_str (stringToWstring example_externals ''Terminate'')) True])"
proof -
  let ?cls = "c_str (stringToWstring example_externals
          (bstrToString example_externals (Some \<lparr>addr = 100, chars = [87]\<rparr>)))"
  let ?meth = "c_str (stringToWstring example_externals ''Terminate'')"
  let ?cn = "\<lparr>addr = 1, chars = ?cls\<rparr>"
  let ?mn = "\<lparr>addr = 2, chars = ?meth\<rparr>"
  let ?pn = "\<lparr>addr = 3, chars = ?cls\<rparr>"
  let ?w1 = "example_world\<lparr>room := 3, fresh := 2\<rparr>"
  let ?w2 = "remote_call (Call_GetMethod ?meth)
                (SysFreeString (Some ?cn) (remote_call (Call_GetObject (chars ?cn)) ?w1))"
  let ?w3 = "snd (SysAllocString ?meth ?w2)"
  let ?w4 = "snd (WbemClassObjectPropToBSTR example_externals \<lparr>result_m = example_object\<rparr>
                ''__PATH'' ?w3)"
  have s: "services_m connected_request = Some (example_services [])"
    by (simp add: connected_request_def)
  have gs: "\<And>p. GetString example_externals \<lparr>result_m = example_object\<rparr> p []
      = (Status_success, bstrToString example_externals (Some \<lparr>addr = 100, chars = [87]\<rparr>))"
    by (simp add: GetString_def example_object_def)
  have c: "WbemClassObjectPropToBSTR example_externals \<lparr>result_m = example_object\<rparr> ''__CLASS''
        example_world = (Some ?cn, ?w1)"
    by (simp add: WbemClassObjectPropToBSTR_def gs SysAllocString_def example_world_def)
  have g: "GetObject (example_services []) (chars ?cn)
      = (S_OK, \<lparr>GetMethod = (\<lambda>m. (S_OK, None))\<rparr>)"
    by (simp add: example_services_def)
  have m: "GetMethod \<lparr>GetMethod = (\<lambda>m. (S_OK, None))\<rparr> ?meth = (S_OK, None)"
    by simp
  have w2: "?w2 = ?w2"
    by (rule refl)
  have a3: "SysAllocString ?meth ?w2 = (Some ?mn, ?w3)"
    by (simp add: SysAllocString_def SysFreeString_def remote_call_def example_world_def)
  have a4: "WbemClassObjectPropToBSTR example_externals \<lparr>result_m = example_object\<rparr>
                ''__PATH'' ?w3 = (Some ?pn, ?w4)"
    by (simp add: WbemClassObjectPropToBSTR_def gs SysAllocString_def SysFreeString_def
        remote_call_def example_world_def)
  have x: "ExecMethod (example_services []) (chars ?pn) (chars ?mn) None = (S_OK, example_object)"
    by (simp add: example_services_def)
  have c4: "calls ?w4 = [Call_GetObject ?cls, Call_GetMethod ?meth]"
    by (simp add: calls_WbemClassObjectPropToBSTR calls_SysAllocString calls_remote_call
        calls_SysFreeString example_world_def)
  from ExecMethod_without_in_parameters
    [OF s c g not_FAILED_S_OK m not_FAILED_S_OK w2,
      of example_args "single_field_item (scalar_field 0 0)" ?mn ?w3 ?pn ?w4 S_OK example_object]
    a3 a4 x not_FAILED_S_OK
  have "WmiRequest_ExecMethod example_externals connected_request
          \<lparr>result_m = example_object\<rparr> ''Terminate'' example_args
          (single_field_item (scalar_field 0 0)) example_world
        = Inr (Status_success, \<lparr>result_m = example_object\<rparr>,
               SysFreeString (Some ?pn)
                 (SysFreeString (Some ?mn)
                    (remote_call (Call_ExecMethod (chars ?pn) (chars ?mn) True) ?w4)))"
    by blast
  moreover have "calls (SysFreeString (Some ?pn)
                 (SysFreeString (Some ?mn)
                    (remote_call (Call_ExecMethod (chars ?pn) (chars ?mn) True) ?w4)))
      = [Call_GetObject ?cls, Call_GetMethod ?meth, Call_ExecMethod ?cls ?meth True]"
    using c4 by (simp add: calls_SysFreeString calls_remote_call)
  moreover have "GetObject (example_services []) ?cls
      = (S_OK, \<lparr>GetMethod = (\<lambda>m. (S_OK, None))\<rparr>)"
    using g by simp
  moreover have "ExecMethod (example_services []) ?cls ?meth None = (S_OK, example_object)"
    using x by simp
  ultimately show ?thesis
    using s c m not_FAILED_S_OK by simp
qed

end
